theory Spec2Isabelle
  imports Main
begin

section \<open>The SFTP deploy action\<close>

text \<open>
  The repository holds two implementations of the deployment that the claims are about.
  \<^item> The CommonJS module with \<open>checkAndInstallSshTools\<close>, \<open>startSshAgent\<close>,
    \<open>getFileCount\<close>, \<open>deploy\<close> and \<open>deployWithDependencies\<close>: it normalises the
    private key, starts an agent, writes one \<open>put\<close> line per file and an identity file.
    It is modelled here under the source's names.
  \<^item> The ES module variant of \<open>src/deploy.js\<close> (\<open>import core from '@actions/core'\<close>):
    it checks that the source directory exists, transfers with \<open>put -r\<close>, cleans up in
    \<open>finally\<close> blocks and sets the action's outputs. Its functions carry the suffix
    \<open>_esm\<close>.

  Everything the code does to the outside is an event, and a run yields the list of its
  events in the order in which the code causes them; the temporary files, the agent
  process and the process environment are a state that is passed along. What the
  outside answers (the inputs, exit codes, streams, the directory tree, failing writes)
  is a record that is fixed for one run.
\<close>

subsection \<open>Errors, messages and events\<close>

text \<open>A JavaScript \<open>Error\<close> with its message.\<close>

datatype err = Error string

fun message :: "err \<Rightarrow> string" where
  "message (Error m) = m"

text \<open>
  An argument of a logging call. A template literal is kept as the list of its parts
  (\<open>Str\<close> for text, \<open>Num\<close> for an interpolated number); \<open>console.log\<close> with several
  arguments is the list of the arguments. \<open>Closure\<close> is the function value that
  \<open>startSshAgent\<close> returns, \<open>Stack\<close> the \<open>stack\<close> property of an error.
\<close>

datatype arg = Str string | Num nat | ErrObj err | Stack err | Closure

datatype sink =
    ConsoleLog | ConsoleWarn | ConsoleError
  | CoreInfo | CoreWarning | CoreError | CoreDebug | CoreStartGroup | CoreEndGroup

datatype event =
    Log sink "arg list"
  | SetSecret string
  | SetEnv string string
  | Spawn string "string list" "string option"
  | WriteFile string string "nat option"
  | Unlink string
  | SetOutput string arg
  | SetFailed string

text \<open>
  \<open>Spawn cmd args stdin\<close> is a call of \<open>exec.exec\<close> or \<open>exec.getExecOutput\<close>;
  \<open>WriteFile path content mode\<close> and \<open>Unlink path\<close> are the calls of the \<open>fs\<close>
  module on the temporary files, whether they succeed or not.
\<close>

subsection \<open>The outside world\<close>

text \<open>
  A directory tree: what \<open>readdirSync\<close> and \<open>statSync\<close> see. A symbolic link carries
  what it points to (\<open>None\<close> when its target is missing); \<open>Other\<close> is any other kind of
  entry (a socket, a device, a named pipe).
\<close>

datatype node = File | Dir "(string \<times> node) list" | Link "node option" | Other

text \<open>How a child process ends: it cannot be started, or it exits with its streams.\<close>

datatype proc = SpawnFails string | Exits string string nat

text \<open>The result object of \<open>exec.getExecOutput\<close>.\<close>

record exec_output =
  stdout :: string
  stderr :: string
  exitCode :: nat

text \<open>One chunk of output handed to a listener of \<open>exec.exec\<close>.\<close>

datatype chunk = OutData string | ErrData string

record ext =
  platform :: string
  tmpdir :: string
  path_join :: "string \<Rightarrow> string \<Rightarrow> string"
  inputs :: "string \<Rightarrow> string"
  fs_lookup :: "string \<Rightarrow> node option"
  write_error :: "string \<Rightarrow> string option"
  unlink_error :: "string \<Rightarrow> string option"
  which_first :: proc
  apt_update :: proc
  apt_install :: proc
  which_verify :: proc
  agent_start :: proc
  ssh_add :: proc
  sftp :: proc
  sftp_stream :: "chunk list"
  agent_kill :: proc
  exit_message :: "string \<Rightarrow> nat \<Rightarrow> string"
  now_iso :: string

text \<open>
  \<open>path_join\<close> is \<open>path.join\<close> and \<open>tmpdir\<close> is \<open>os.tmpdir()\<close>; \<open>inputs\<close> gives the
  value of the environment variable that \<open>core.getInput\<close> reads for a name (empty when
  the input is not supplied); \<open>fs_lookup\<close> gives the entry at a path;
  \<open>exit_message\<close> is the text of the error with which \<open>@actions/exec\<close> rejects for a
  tool and a non-zero exit code; \<open>now_iso\<close> is \<open>new Date().toISOString()\<close>.
\<close>

record world =
  disk :: "string \<rightharpoonup> string \<times> nat option"
  agent :: "string list option"
  penv :: "string \<rightharpoonup> string"

text \<open>
  \<open>disk\<close> holds the temporary files with their content and the mode they were created
  with (\<open>None\<close> for the default mode); \<open>agent\<close> is \<open>None\<close> when no agent process runs
  and otherwise the keys that the agent holds; \<open>penv\<close> is \<open>process.env\<close>.
\<close>

subsection \<open>Sequencing, \<open>throw\<close>, \<open>try\<close>/\<open>catch\<close>/\<open>finally\<close>\<close>

text \<open>
  A computation starts in a state and ends with a value or a thrown error, the new
  state, and the events it has caused, in their order.
\<close>

type_synonym 'a outcome = "(err + 'a) \<times> world \<times> event list"

type_synonym 'a m = "world \<Rightarrow> 'a outcome"

definition result :: "'a outcome \<Rightarrow> err + 'a" where
  "result r = fst r"

definition final :: "'a outcome \<Rightarrow> world" where
  "final r = fst (snd r)"

definition events :: "'a outcome \<Rightarrow> event list" where
  "events r = snd (snd r)"

definition ret :: "'a \<Rightarrow> 'a m" where
  "ret a = (\<lambda>w. (Inr a, w, []))"

definition throw :: "err \<Rightarrow> 'a m" where
  "throw e = (\<lambda>w. (Inl e, w, []))"

definition bind :: "'a m \<Rightarrow> ('a \<Rightarrow> 'b m) \<Rightarrow> 'b m" where
  "bind f g = (\<lambda>w. case f w of
      (Inl e, w', evs) \<Rightarrow> (Inl e, w', evs)
    | (Inr a, w', evs) \<Rightarrow> (case g a w' of (r, w'', evs') \<Rightarrow> (r, w'', evs @ evs')))"

definition try_catch :: "'a m \<Rightarrow> (err \<Rightarrow> 'a m) \<Rightarrow> 'a m" where
  "try_catch f h = (\<lambda>w. case f w of
      (Inl e, w', evs) \<Rightarrow> (case h e w' of (r, w'', evs') \<Rightarrow> (r, w'', evs @ evs'))
    | (Inr a, w', evs) \<Rightarrow> (Inr a, w', evs))"

definition try_finally :: "'a m \<Rightarrow> unit m \<Rightarrow> 'a m" where
  "try_finally f fin = (\<lambda>w. case f w of (r, w', evs) \<Rightarrow>
     (case fin w' of
        (Inl e, w'', evs') \<Rightarrow> (Inl e, w'', evs @ evs')
      | (Inr u, w'', evs') \<Rightarrow> (r, w'', evs @ evs')))"

definition emit :: "event \<Rightarrow> unit m" where
  "emit ev = (\<lambda>w. (Inr (), w, [ev]))"

definition modify :: "(world \<Rightarrow> world) \<Rightarrow> unit m" where
  "modify f = (\<lambda>w. (Inr (), f w, []))"

definition whenM :: "bool \<Rightarrow> unit m \<Rightarrow> unit m" where
  "whenM b f = (if b then f else ret ())"

subsection \<open>Strings\<close>

definition endsWith :: "string \<Rightarrow> string \<Rightarrow> bool" where
  "endsWith s suffix = (length suffix \<le> length s \<and> drop (length s - length suffix) s = suffix)"

fun startsWith :: "string \<Rightarrow> string \<Rightarrow> bool" where
  "startsWith s [] = True"
| "startsWith [] (p # ps) = False"
| "startsWith (c # cs) (p # ps) = (c = p \<and> startsWith cs ps)"

text \<open>The text after the first occurrence of \<open>p\<close> in \<open>s\<close>, when there is one.\<close>

fun after_first :: "string \<Rightarrow> string \<Rightarrow> string option" where
  "after_first p [] = (if p = [] then Some [] else None)"
| "after_first p (c # cs) =
     (if startsWith (c # cs) p then Some (drop (length p) (c # cs)) else after_first p cs)"

text \<open>
  \<open>s.match(/NAME=([^;]*)/)\<close>, reduced to its first capture group: the text between the
  first \<open>NAME=\<close> and the next semicolon (or the end).
\<close>

definition match_assignment :: "string \<Rightarrow> string \<Rightarrow> string option" where
  "match_assignment name s =
     map_option (takeWhile (\<lambda>c. c \<noteq> CHR '';'')) (after_first (name @ ''='') s)"

definition str_includes :: "string \<Rightarrow> string \<Rightarrow> bool" where
  "str_includes s p = (after_first p s \<noteq> None)"

text \<open>
  \<open>String.prototype.trim\<close> removes the white space and the line terminators of
  ECMAScript from both ends. A string is kept here as the bytes of its UTF-8 encoding:
  six of these characters are one byte, the others two or three.
\<close>

definition is_space :: "char \<Rightarrow> bool" where
  "is_space c = (c \<in> set [CHR '' '', CHR 0x09, CHR 0x0A, CHR 0x0B, CHR 0x0C, CHR 0x0D])"

definition wide_spaces :: "string list" where
  "wide_spaces =
     [[CHR 0xC2, CHR 0xA0], [CHR 0xE1, CHR 0x9A, CHR 0x80],
      [CHR 0xE2, CHR 0x80, CHR 0x80], [CHR 0xE2, CHR 0x80, CHR 0x81],
      [CHR 0xE2, CHR 0x80, CHR 0x82], [CHR 0xE2, CHR 0x80, CHR 0x83],
      [CHR 0xE2, CHR 0x80, CHR 0x84], [CHR 0xE2, CHR 0x80, CHR 0x85],
      [CHR 0xE2, CHR 0x80, CHR 0x86], [CHR 0xE2, CHR 0x80, CHR 0x87],
      [CHR 0xE2, CHR 0x80, CHR 0x88], [CHR 0xE2, CHR 0x80, CHR 0x89],
      [CHR 0xE2, CHR 0x80, CHR 0x8A], [CHR 0xE2, CHR 0x80, CHR 0xA8],
      [CHR 0xE2, CHR 0x80, CHR 0xA9], [CHR 0xE2, CHR 0x80, CHR 0xAF],
      [CHR 0xE2, CHR 0x81, CHR 0x9F], [CHR 0xE3, CHR 0x80, CHR 0x80],
      [CHR 0xEF, CHR 0xBB, CHR 0xBF]]"

text \<open>
  \<open>strip ws s\<close> removes from the front of \<open>s\<close> every one-byte space and every
  sequence of \<open>ws\<close>.
\<close>

fun strip :: "string list \<Rightarrow> string \<Rightarrow> string" where
  "strip ws [] = []"
| "strip ws (c # cs) =
     (if is_space c then strip ws cs
      else case find (startsWith (c # cs)) ws of
             Some p \<Rightarrow> strip ws (drop (length p - 1) cs)
           | None \<Rightarrow> c # cs)"

definition trim :: "string \<Rightarrow> string" where
  "trim s = rev (strip (map rev wide_spaces) (rev (strip wide_spaces s)))"

text \<open>A path as it appears in the message of a file system error.\<close>

definition quoted :: "string \<Rightarrow> string" where
  "quoted s = [CHR 0x27] @ s @ [CHR 0x27]"

definition enoent :: "string \<Rightarrow> string \<Rightarrow> err" where
  "enoent syscall path =
     Error (''ENOENT: no such file or directory, '' @ syscall @ '' '' @ quoted path)"

definition enotdir :: "string \<Rightarrow> string \<Rightarrow> err" where
  "enotdir syscall path = Error (''ENOTDIR: not a directory, '' @ syscall @ '' '' @ quoted path)"


subsection \<open>The \<open>@actions/core\<close>, \<open>@actions/exec\<close> and \<open>fs\<close> calls\<close>

definition console_log :: "arg list \<Rightarrow> unit m" where
  "console_log as = emit (Log ConsoleLog as)"

definition console_warn :: "arg list \<Rightarrow> unit m" where
  "console_warn as = emit (Log ConsoleWarn as)"

definition console_error :: "arg list \<Rightarrow> unit m" where
  "console_error as = emit (Log ConsoleError as)"

definition core_info :: "string \<Rightarrow> unit m" where
  "core_info s = emit (Log CoreInfo [Str s])"

definition core_warning :: "string \<Rightarrow> unit m" where
  "core_warning s = emit (Log CoreWarning [Str s])"

definition core_error :: "arg \<Rightarrow> unit m" where
  "core_error a = emit (Log CoreError [a])"

definition core_debug :: "string \<Rightarrow> unit m" where
  "core_debug s = emit (Log CoreDebug [Str s])"

definition core_startGroup :: "string \<Rightarrow> unit m" where
  "core_startGroup s = emit (Log CoreStartGroup [Str s])"

definition core_endGroup :: "unit m" where
  "core_endGroup = emit (Log CoreEndGroup [])"

definition core_setSecret :: "string \<Rightarrow> unit m" where
  "core_setSecret s = emit (SetSecret s)"

definition core_setOutput :: "string \<Rightarrow> arg \<Rightarrow> unit m" where
  "core_setOutput name v = emit (SetOutput name v)"

definition core_setFailed :: "string \<Rightarrow> unit m" where
  "core_setFailed s = emit (SetFailed s)"

text \<open>
  \<open>core.getInput(name, { required })\<close>: an input that is required and whose variable is
  empty throws; otherwise the value is returned trimmed (\<open>trimWhitespace\<close> is on unless
  the caller turns it off, which this code never does).
\<close>

definition input_value :: "ext \<Rightarrow> string \<Rightarrow> string" where
  "input_value x name = trim (inputs x name)"

definition getInput :: "ext \<Rightarrow> string \<Rightarrow> bool \<Rightarrow> string m" where
  "getInput x name required =
     (if required \<and> inputs x name = []
      then throw (Error (''Input required and not supplied: '' @ name))
      else ret (input_value x name))"

text \<open>\<open>a || b\<close> on strings: the empty string is falsy.\<close>

definition or_default :: "string \<Rightarrow> string \<Rightarrow> string" where
  "or_default a b = (if a = [] then b else a)"

definition set_env :: "string \<Rightarrow> string \<Rightarrow> unit m" where
  "set_env name v =
     bind (emit (SetEnv name v)) (\<lambda>_.
     modify (\<lambda>w. w\<lparr>penv := (penv w)(name \<mapsto> v)\<rparr>))"

text \<open>
  What the tools of OpenSSH do to the agent when they exit with status 0:
  \<open>ssh-agent -s\<close> starts an agent that holds no key, \<open>ssh-add -\<close> loads the key it reads
  from its standard input into the running agent, \<open>ssh-agent -k\<close> ends the agent.
\<close>

definition tool_effect :: "string \<Rightarrow> string list \<Rightarrow> string option \<Rightarrow> world \<Rightarrow> world" where
  "tool_effect cmd args inp w =
     (if cmd = ''ssh-agent'' \<and> args = [''-s''] then w\<lparr>agent := Some []\<rparr>
      else if cmd = ''ssh-agent'' \<and> args = [''-k''] then w\<lparr>agent := None\<rparr>
      else if cmd = ''ssh-add'' \<and> args = [''-''] then
        (case (agent w, inp) of
           (Some ks, Some k) \<Rightarrow> w\<lparr>agent := Some (ks @ [k])\<rparr>
         | _ \<Rightarrow> w)
      else w)"

text \<open>
  \<open>exec.getExecOutput(cmd, args, { input, ignoreReturnCode })\<close>: the promise rejects
  when the process cannot be started, and when it exits with a non-zero status unless
  \<open>ignoreReturnCode\<close> is set; otherwise it resolves to the streams and the status.
\<close>

definition getExecOutput ::
  "ext \<Rightarrow> proc \<Rightarrow> string \<Rightarrow> string list \<Rightarrow> string option \<Rightarrow> bool \<Rightarrow> exec_output m" where
  "getExecOutput x p cmd args inp ignoreReturnCode =
     bind (emit (Spawn cmd args inp)) (\<lambda>_.
       case p of
         SpawnFails msg \<Rightarrow> throw (Error msg)
       | Exits out e c \<Rightarrow>
           if c \<noteq> 0 \<and> \<not> ignoreReturnCode then throw (Error (exit_message x cmd c))
           else
             bind (whenM (c = 0) (modify (tool_effect cmd args inp))) (\<lambda>_.
             ret \<lparr>stdout = out, stderr = e, exitCode = c\<rparr>))"

text \<open>\<open>exec.exec(cmd, args)\<close>: as above, resolving to the exit status.\<close>

definition exec_exec :: "ext \<Rightarrow> proc \<Rightarrow> string \<Rightarrow> string list \<Rightarrow> nat m" where
  "exec_exec x p cmd args =
     bind (getExecOutput x p cmd args None False) (\<lambda>r. ret (exitCode r))"

text \<open>
  \<open>fs.promises.writeFile(path, content, { mode })\<close> and \<open>fs.writeFileSync\<close>: the file
  gets the content; \<open>mode\<close> is used only when the call creates the file, a file that is
  already there keeps the mode it has.
\<close>

definition written :: "string \<Rightarrow> nat option \<Rightarrow> (string \<times> nat option) option \<Rightarrow> string \<times> nat option" where
  "written content mode old =
     (case old of None \<Rightarrow> (content, mode) | Some (c, m) \<Rightarrow> (content, m))"

definition writeFile :: "ext \<Rightarrow> string \<Rightarrow> string \<Rightarrow> nat option \<Rightarrow> unit m" where
  "writeFile x path content mode =
     bind (emit (WriteFile path content mode)) (\<lambda>_.
       case write_error x path of
         Some msg \<Rightarrow> throw (Error msg)
       | None \<Rightarrow>
           modify (\<lambda>w. w\<lparr>disk := (disk w)(path \<mapsto> written content mode (disk w path))\<rparr>))"

text \<open>\<open>fs.promises.unlink(path)\<close> and \<open>fs.unlinkSync\<close>: a missing file is an error.\<close>

definition unlink :: "ext \<Rightarrow> string \<Rightarrow> unit m" where
  "unlink x path =
     bind (emit (Unlink path)) (\<lambda>_.
       case unlink_error x path of
         Some msg \<Rightarrow> throw (Error msg)
       | None \<Rightarrow>
           (\<lambda>w. if disk w path \<noteq> None
                then modify (\<lambda>w. w\<lparr>disk := (disk w)(path := None)\<rparr>) w
                else throw (enoent ''unlink'' path) w))"

text \<open>The mode \<open>0o600\<close>: read and write for the owner only.\<close>

definition mode_0600 :: nat where
  "mode_0600 = 6 * 64"

subsection \<open>Private-key normalisation\<close>

text \<open>
  \<^verbatim>\<open>if (!privateKey.endsWith('\n')) { privateKey += '\n'; }\<close>
\<close>

definition normalizeKey :: "string \<Rightarrow> string" where
  "normalizeKey privateKey =
     (if \<not> endsWith privateKey ''\<newline>'' then privateKey @ ''\<newline>'' else privateKey)"

subsection \<open>The source directory\<close>

text \<open>
  What \<open>stat\<close> sees at an entry: a symbolic link is followed to its target, and a link
  whose target is missing is not there.
\<close>

fun follow :: "node \<Rightarrow> node option" where
  "follow (Link None) = None"
| "follow (Link (Some t)) = follow t"
| "follow File = Some File"
| "follow (Dir es) = Some (Dir es)"
| "follow Other = Some Other"

definition stat :: "ext \<Rightarrow> string \<Rightarrow> node option" where
  "stat x path = (case fs_lookup x path of None \<Rightarrow> None | Some t \<Rightarrow> follow t)"

text \<open>
  \<open>fs.readdirSync(directory, { recursive: true })\<close> lists every entry below the
  directory as a path relative to it; it goes on below every entry that \<open>stat\<close> shows
  as a directory, so also below a symbolic link to one. A relative path is kept as the
  list of its components. Node does not promise the order of the listing, and
  \<open>getFileCount\<close> does not depend on it.
\<close>

fun rel_paths :: "node \<Rightarrow> string list list" where
  "rel_paths (Dir es) = concat (map (\<lambda>(n, t). [n] # map ((#) n) (rel_paths t)) es)"
| "rel_paths (Link (Some t)) = rel_paths t"
| "rel_paths (Link None) = []"
| "rel_paths File = []"
| "rel_paths Other = []"

text \<open>
  What \<open>stat\<close> sees at a relative path below a node: links are followed at every
  component.
\<close>

fun stat_rel :: "node \<Rightarrow> string list \<Rightarrow> node option" where
  "stat_rel (Link None) p = None"
| "stat_rel (Link (Some t)) p = stat_rel t p"
| "stat_rel File [] = Some File"
| "stat_rel (Dir es) [] = Some (Dir es)"
| "stat_rel Other [] = Some Other"
| "stat_rel (Dir es) (n # p) = (case map_of es n of None \<Rightarrow> None | Some t \<Rightarrow> stat_rel t p)"
| "stat_rel File (n # p) = None"
| "stat_rel Other (n # p) = None"

text \<open>The relative path as \<open>readdirSync\<close> returns it, as one string.\<close>

fun rel_name :: "string list \<Rightarrow> string" where
  "rel_name [] = []"
| "rel_name [n] = n"
| "rel_name (n # m # p) = n @ ''/'' @ rel_name (m # p)"

definition existsSync :: "ext \<Rightarrow> string \<Rightarrow> bool" where
  "existsSync x path = (stat x path \<noteq> None)"

definition readdirSync_recursive :: "ext \<Rightarrow> string \<Rightarrow> string list list m" where
  "readdirSync_recursive x directory =
     (case stat x directory of
        None \<Rightarrow> throw (enoent ''scandir'' directory)
      | Some (Dir es) \<Rightarrow> ret (rel_paths (Dir es))
      | Some _ \<Rightarrow> throw (enotdir ''scandir'' directory))"

text \<open>
  \<open>fs.readdirSync(directory, { withFileTypes: true })\<close>: the entries directly in the
  directory, each with its name and its own kind: the \<open>Dirent\<close> of a symbolic link is a
  link, whatever it points to.
\<close>

definition readdirSync_withFileTypes :: "ext \<Rightarrow> string \<Rightarrow> (string \<times> node) list m" where
  "readdirSync_withFileTypes x directory =
     (case stat x directory of
        None \<Rightarrow> throw (enoent ''scandir'' directory)
      | Some (Dir es) \<Rightarrow> ret es
      | Some _ \<Rightarrow> throw (enotdir ''scandir'' directory))"

text \<open>
  \<open>fs.statSync(path.join(directory, file))\<close> for a relative path \<open>file\<close>: the kind of
  what is there after all links are followed.
\<close>

definition statSync :: "ext \<Rightarrow> string \<Rightarrow> string list \<Rightarrow> node m" where
  "statSync x directory file =
     (case stat x directory of
        None \<Rightarrow> throw (enoent ''stat'' (path_join x directory (rel_name file)))
      | Some t \<Rightarrow>
          (case stat_rel t file of
             None \<Rightarrow> throw (enoent ''stat'' (path_join x directory (rel_name file)))
           | Some n \<Rightarrow> ret n))"

text \<open>\<open>isFile()\<close> of a \<open>Dirent\<close> or of a \<open>Stats\<close> object.\<close>

definition isFile :: "node \<Rightarrow> bool" where
  "isFile n = (n = File)"

subsection \<open>Pictographs of the group titles (UTF-8)\<close>

definition wrench :: string where
  "wrench = [CHR 0xF0, CHR 0x9F, CHR 0x94, CHR 0xA7]"

definition closed_lock_with_key :: string where
  "closed_lock_with_key = [CHR 0xF0, CHR 0x9F, CHR 0x94, CHR 0x90]"

subsection \<open>\<open>checkAndInstallSshTools\<close>\<close>

definition checkAndInstallSshTools :: "ext \<Rightarrow> unit m" where
  "checkAndInstallSshTools x =
     bind (core_startGroup (wrench @ '' Checking SSH tools'')) (\<lambda>_.
     try_finally
       (try_catch
          (bind (core_info ''Checking if ssh-add is available...'') (\<lambda>_.
           bind (getExecOutput x (which_first x) ''which'' [''ssh-add''] None True) (\<lambda>sshAddResult.
           bind (whenM (exitCode sshAddResult \<noteq> 0)
                  (bind (core_info ''ssh-add not found, installing OpenSSH client...'') (\<lambda>_.
                   bind (if platform x = ''linux'' then
                           bind (exec_exec x (apt_update x) ''sudo'' [''apt-get'', ''update'']) (\<lambda>_.
                           bind (exec_exec x (apt_install x) ''sudo''
                                   [''apt-get'', ''install'', ''-y'', ''openssh-client'']) (\<lambda>_.
                           ret ()))
                         else if platform x = ''darwin'' then
                           core_info ''On macOS, OpenSSH should be pre-installed''
                         else if platform x = ''win32'' then
                           core_warning
                             ''On Windows, please ensure OpenSSH is installed via Windows features''
                         else ret ()) (\<lambda>_.
                   bind (getExecOutput x (which_verify x) ''which'' [''ssh-add''] None True)
                     (\<lambda>verifyResult.
                   whenM (exitCode verifyResult \<noteq> 0)
                     (throw (Error
                        ''Failed to install or locate ssh-add after installation attempt''))))))) (\<lambda>_.
           core_info ''SSH tools are available''))))
          (\<lambda>error.
             bind (core_error (Str ''Failed to setup SSH tools'')) (\<lambda>_.
             bind (core_error (ErrObj error)) (\<lambda>_.
             throw error))))
       core_endGroup)"

subsection \<open>\<open>startSshAgent\<close>\<close>

text \<open>The function that \<open>startSshAgent\<close> returns.\<close>

definition terminate_agent :: "ext \<Rightarrow> unit m" where
  "terminate_agent x =
     bind (core_info ''Terminating SSH agent...'') (\<lambda>_.
     bind (exec_exec x (agent_kill x) ''ssh-agent'' [''-k'']) (\<lambda>_.
     ret ()))"

definition startSshAgent :: "ext \<Rightarrow> string \<Rightarrow> (unit m) m" where
  "startSshAgent x privateKey =
     bind (core_startGroup (closed_lock_with_key @ '' Setting up SSH Agent'')) (\<lambda>_.
     try_finally
       (try_catch
          (bind (whenM (privateKey = []) (throw (Error ''Private key is required''))) (\<lambda>_.
           bind (core_info ''Starting ssh-agent process...'') (\<lambda>_.
           bind (getExecOutput x (agent_start x) ''ssh-agent'' [''-s''] None False) (\<lambda>agentInfo.
           bind (core_info ''ssh-agent output:'') (\<lambda>_.
           bind (whenM (stdout agentInfo = []) (throw (Error ''Failed to get ssh-agent output'')))
             (\<lambda>_.
           case (match_assignment ''SSH_AUTH_SOCK'' (stdout agentInfo),
                 match_assignment ''SSH_AGENT_PID'' (stdout agentInfo)) of
             (Some authSock, Some agentPid) \<Rightarrow>
               bind (set_env ''SSH_AUTH_SOCK'' authSock) (\<lambda>_.
               bind (set_env ''SSH_AGENT_PID'' agentPid) (\<lambda>_.
               bind (core_info (''SSH Agent started with PID: '' @ agentPid)) (\<lambda>_.
               bind (core_info ''Adding SSH key to agent...'') (\<lambda>_.
               bind (getExecOutput x (ssh_add x) ''ssh-add'' [''-''] (Some privateKey) False) (\<lambda>_.
               bind (core_info ''SSH key added successfully'') (\<lambda>_.
               ret (terminate_agent x)))))))
           | _ \<Rightarrow> throw (Error ''Failed to parse ssh-agent output'')))))))
          (\<lambda>error.
             bind (core_error (Str ''Failed to setup SSH agent'')) (\<lambda>_.
             bind (core_error (ErrObj error)) (\<lambda>_.
             throw error))))
       core_endGroup)"

subsection \<open>\<open>getFileCount\<close>\<close>

fun count_loop :: "ext \<Rightarrow> string \<Rightarrow> string list list \<Rightarrow> nat \<Rightarrow> nat m" where
  "count_loop x directory [] count = ret count"
| "count_loop x directory (file # files) count =
     bind (statSync x directory file) (\<lambda>st.
     count_loop x directory files (if isFile st then count + 1 else count))"

definition getFileCount :: "ext \<Rightarrow> string \<Rightarrow> nat m" where
  "getFileCount x directory =
     bind (readdirSync_recursive x directory) (\<lambda>files.
     count_loop x directory files 0)"

subsection \<open>\<open>deploy\<close>\<close>

record config =
  cfg_host :: string
  cfg_username :: string
  cfg_port :: string
  cfg_sourceDir :: string
  cfg_remoteDir :: string
  cfg_privateKey :: string

text \<open>
  \<open>path.join(os.tmpdir(), 'sftp_batch')\<close> and \<open>path.join(os.tmpdir(), 'deploy_identity')\<close>.
\<close>

definition batch_file_path :: "ext \<Rightarrow> string" where
  "batch_file_path x = path_join x (tmpdir x) ''sftp_batch''"

definition identity_file_path :: "ext \<Rightarrow> string" where
  "identity_file_path x = path_join x (tmpdir x) ''deploy_identity''"

text \<open>The message \<open>Configuration validated: ...\<close>, one template literal.\<close>

definition config_summary :: "string \<Rightarrow> config \<Rightarrow> arg list" where
  "config_summary indent c =
     [Str ''Configuration validated:'',
      Str (''\<newline>'' @ indent @ ''- Host: ''), Str (cfg_host c),
      Str (''\<newline>'' @ indent @ ''- Username: ''), Str (cfg_username c),
      Str (''\<newline>'' @ indent @ ''- Port: ''), Str (cfg_port c),
      Str (''\<newline>'' @ indent @ ''- Source Directory: ''), Str (cfg_sourceDir c),
      Str (''\<newline>'' @ indent @ ''- Remote Directory: ''), Str (cfg_remoteDir c),
      Str (''\<newline>'' @ indent @ ''- Private Key Length: ''),
      Num (if cfg_privateKey c = [] then 0 else length (cfg_privateKey c)),
      Str '' characters'']"

text \<open>
  From \<open>// Validate inputs\<close> to the configuration message: the inputs are read, the
  private key is normalised and registered as a secret.
\<close>

definition validate_inputs :: "ext \<Rightarrow> config m" where
  "validate_inputs x =
     bind (console_log [Str ''Validating input parameters...'']) (\<lambda>_.
     bind (getInput x ''host'' True) (\<lambda>host.
     bind (getInput x ''username'' True) (\<lambda>username.
     bind (getInput x ''port'' False) (\<lambda>p.
     bind (getInput x ''source_dir'' True) (\<lambda>sourceDir.
     bind (getInput x ''remote_dir'' True) (\<lambda>remoteDir.
     bind (getInput x ''private_key'' True) (\<lambda>rawKey.
     bind (whenM (\<not> endsWith rawKey ''\<newline>'')
            (console_log [Str ''Added missing newline to private key''])) (\<lambda>_.
     bind (core_setSecret (normalizeKey rawKey)) (\<lambda>_.
     bind (console_log (config_summary (replicate 12 CHR '' '')
             \<lparr>cfg_host = host, cfg_username = username, cfg_port = or_default p ''22'',
              cfg_sourceDir = sourceDir, cfg_remoteDir = remoteDir,
              cfg_privateKey = normalizeKey rawKey\<rparr>)) (\<lambda>_.
     ret \<lparr>cfg_host = host, cfg_username = username, cfg_port = or_default p ''22'',
          cfg_sourceDir = sourceDir, cfg_remoteDir = remoteDir,
          cfg_privateKey = normalizeKey rawKey\<rparr>))))))))))"

text \<open>
  The loop over the directory entries: one \<open>put\<close> line for every regular file.
\<close>

fun put_loop ::
  "(string \<Rightarrow> string \<Rightarrow> string) \<Rightarrow> string \<Rightarrow> (string \<times> node) list \<Rightarrow> string \<Rightarrow> string" where
  "put_loop join sourceDir [] batchFileContent = batchFileContent"
| "put_loop join sourceDir ((name, kind) # files) batchFileContent =
     put_loop join sourceDir files
       (if isFile kind
        then batchFileContent @ ''put '' @ [CHR 0x22] @ join sourceDir name @ [CHR 0x22]
               @ '' '' @ [CHR 0x22] @ name @ [CHR 0x22] @ ''\<newline>''
        else batchFileContent)"

definition batch_content ::
  "(string \<Rightarrow> string \<Rightarrow> string) \<Rightarrow> string \<Rightarrow> string \<Rightarrow> (string \<times> node) list \<Rightarrow> string" where
  "batch_content join remoteDir sourceDir files =
     put_loop join sourceDir files
       ((''-mkdir '' @ remoteDir @ ''\<newline>'') @ (''cd '' @ remoteDir @ ''\<newline>''))"

text \<open>From \<open>// Create batch file\<close> to the message with the batch file's contents.\<close>

definition create_batch_file :: "ext \<Rightarrow> config \<Rightarrow> string m" where
  "create_batch_file x c =
     bind (console_log [Str ''Creating SFTP batch file...'']) (\<lambda>_.
     bind (getFileCount x (cfg_sourceDir c)) (\<lambda>fileCount.
     bind (console_log
            [Str ''Found '', Num fileCount, Str '' files to transfer in source directory''])
       (\<lambda>_.
     bind (readdirSync_withFileTypes x (cfg_sourceDir c)) (\<lambda>files.
     bind (writeFile x (batch_file_path x)
            (batch_content (path_join x) (cfg_remoteDir c) (cfg_sourceDir c) files) None) (\<lambda>_.
     bind (console_log [Str ''SFTP batch file created successfully at:'',
            Str (batch_file_path x)]) (\<lambda>_.
     bind (console_log [Str ''Batch file contents:'',
            Str (batch_content (path_join x) (cfg_remoteDir c) (cfg_sourceDir c) files)]) (\<lambda>_.
     ret (batch_file_path x))))))))"

definition sftp_command :: "string \<Rightarrow> string \<Rightarrow> config \<Rightarrow> string" where
  "sftp_command identityFile batchFilePath c =
     ''sftp -v -o StrictHostKeyChecking=no -o UserKnownHostsFile=/dev/null -i ''
       @ identityFile @ '' -b '' @ batchFilePath @ '' -P '' @ cfg_port c @ '' ''
       @ cfg_username c @ ''@'' @ cfg_host c"

text \<open>
  From \<open>// Execute SFTP transfer\<close> to \<open>Executing SFTP command\<close>: the identity file is
  written with mode \<open>0o600\<close> and the command line is built.
\<close>

definition prepare_sftp :: "ext \<Rightarrow> config \<Rightarrow> string \<Rightarrow> (string \<times> string) m" where
  "prepare_sftp x c batchFilePath =
     bind (console_log [Str ''Preparing SFTP command...'']) (\<lambda>_.
     bind (writeFile x (identity_file_path x) (cfg_privateKey c) (Some mode_0600))
       (\<lambda>_.
     bind (console_log [Str ''Identity file created at: '',
            Str (identity_file_path x)]) (\<lambda>_.
     bind (console_log [Str ''Executing SFTP command: '',
            Str (sftp_command (identity_file_path x) batchFilePath c)])
       (\<lambda>_.
     ret (identity_file_path x,
          sftp_command (identity_file_path x) batchFilePath c)))))"

definition delete_identity :: "ext \<Rightarrow> string \<Rightarrow> unit m" where
  "delete_identity x identityFile =
     try_catch
       (bind (unlink x identityFile) (\<lambda>_.
        console_log [Str ''Temporary identity file deleted'']))
       (\<lambda>err. console_warn [Str ''Error deleting temporary identity file:'', ErrObj err])"

text \<open>The \<open>try\<close>/\<open>catch\<close> around the call of the sftp client.\<close>

definition deploy_transfer :: "ext \<Rightarrow> string \<Rightarrow> string \<Rightarrow> unit m" where
  "deploy_transfer x identityFile sftpCommand =
     bind (console_log [Str ''Starting file transfer...'']) (\<lambda>_.
     try_catch
       (bind (getExecOutput x (sftp x) sftpCommand [] None False) (\<lambda>result.
        bind (console_log [Str ''SFTP command output:'', Str (stdout result)]) (\<lambda>_.
        bind (whenM (stderr result \<noteq> [])
               (console_warn [Str ''SFTP command stderr:'', Str (stderr result)])) (\<lambda>_.
        bind (console_log
               [Str ''SFTP transfer completed with exit code: '', Num (exitCode result)]) (\<lambda>_.
        delete_identity x identityFile)))))
       (\<lambda>sftpError.
          bind (console_error [Str ''SFTP command failed:'', ErrObj sftpError]) (\<lambda>_.
          bind (delete_identity x identityFile) (\<lambda>_.
          throw sftpError))))"

text \<open>From \<open>// Cleanup\<close> on: the batch file is deleted and the agent is killed.\<close>

definition deploy_cleanup :: "ext \<Rightarrow> string \<Rightarrow> unit m" where
  "deploy_cleanup x batchFilePath =
     bind (console_log [Str ''Starting cleanup process...'']) (\<lambda>_.
     bind (try_catch
            (bind (unlink x batchFilePath) (\<lambda>_.
             console_log [Str ''Batch file deleted successfully'']))
            (\<lambda>error. console_warn [Str ''Error deleting batch file:'', ErrObj error])) (\<lambda>_.
     try_catch
       (bind (exec_exec x (agent_kill x) ''ssh-agent'' [''-k'']) (\<lambda>_.
        console_log [Str ''SSH agent killed successfully'']))
       (\<lambda>error. console_warn [Str ''Error killing SSH agent:'', ErrObj error])))"

text \<open>
  What \<open>deploy\<close> does with the validated configuration before
  \<open>Starting file transfer...\<close>: the agent is started and given the key, the batch file
  and the identity file are written. It yields the path of the batch file, the path of
  the identity file and the command line.
\<close>

definition deploy_prepare :: "ext \<Rightarrow> config \<Rightarrow> (string \<times> string \<times> string) m" where
  "deploy_prepare x c =
     bind (console_log [Str ''Starting SSH agent...'']) (\<lambda>_.
     bind (startSshAgent x (cfg_privateKey c)) (\<lambda>agentInfo.
     bind (console_log [Str ''SSH agent started successfully:'', Closure]) (\<lambda>_.
     bind (create_batch_file x c) (\<lambda>batchFilePath.
     bind (prepare_sftp x c batchFilePath) (\<lambda>(identityFile, sftpCommand).
     ret (batchFilePath, identityFile, sftpCommand))))))"

definition deploy_run :: "ext \<Rightarrow> config \<Rightarrow> bool m" where
  "deploy_run x c =
     bind (deploy_prepare x c) (\<lambda>(batchFilePath, identityFile, sftpCommand).
     bind (deploy_transfer x identityFile sftpCommand) (\<lambda>_.
     bind (deploy_cleanup x batchFilePath) (\<lambda>_.
     bind (console_log [Str ''Deployment completed successfully!'']) (\<lambda>_.
     ret True))))"

text \<open>The outer \<open>catch\<close>: an error always has a \<open>stack\<close>.\<close>

definition deploy_failed :: "err \<Rightarrow> bool m" where
  "deploy_failed error =
     bind (console_error [Str ''Deployment failed with error:'', ErrObj error]) (\<lambda>_.
     bind (console_error [Str ''Error stack trace:'', Stack error]) (\<lambda>_.
     throw error))"

definition deploy :: "ext \<Rightarrow> bool m" where
  "deploy x =
     bind (console_log [Str ''Starting deployment process...'']) (\<lambda>_.
     try_catch
       (bind (checkAndInstallSshTools x) (\<lambda>_.
        bind (validate_inputs x) (\<lambda>c.
        deploy_run x c)))
       deploy_failed)"

subsection \<open>\<open>deployWithDependencies\<close>\<close>

text \<open>
  The injectable variant, with the default dependencies: \<open>coreModule\<close>, \<open>execModule\<close>,
  \<open>fsModule\<close>, \<open>osModule\<close>, \<open>pathModule\<close> and \<open>processEnv\<close> are the modules that
  \<open>deploy\<close> uses. Its inner functions \<open>checkAndInstallSshToolsWithDeps\<close>,
  \<open>startSshAgentWithDeps\<close> and \<open>getFileCountWithDeps\<close> and its steps are written
  out again in the source, and so they are here.
\<close>

definition checkAndInstallSshToolsWithDeps :: "ext \<Rightarrow> unit m" where
  "checkAndInstallSshToolsWithDeps x =
     bind (core_startGroup (wrench @ '' Checking SSH tools'')) (\<lambda>_.
     try_finally
       (try_catch
          (bind (core_info ''Checking if ssh-add is available...'') (\<lambda>_.
           bind (getExecOutput x (which_first x) ''which'' [''ssh-add''] None True) (\<lambda>sshAddResult.
           bind (whenM (exitCode sshAddResult \<noteq> 0)
                  (bind (core_info ''ssh-add not found, installing OpenSSH client...'') (\<lambda>_.
                   bind (if platform x = ''linux'' then
                           bind (exec_exec x (apt_update x) ''sudo'' [''apt-get'', ''update'']) (\<lambda>_.
                           bind (exec_exec x (apt_install x) ''sudo''
                                   [''apt-get'', ''install'', ''-y'', ''openssh-client'']) (\<lambda>_.
                           ret ()))
                         else if platform x = ''darwin'' then
                           core_info ''On macOS, OpenSSH should be pre-installed''
                         else if platform x = ''win32'' then
                           core_warning
                             ''On Windows, please ensure OpenSSH is installed via Windows features''
                         else ret ()) (\<lambda>_.
                   bind (getExecOutput x (which_verify x) ''which'' [''ssh-add''] None True)
                     (\<lambda>verifyResult.
                   whenM (exitCode verifyResult \<noteq> 0)
                     (throw (Error
                        ''Failed to install or locate ssh-add after installation attempt''))))))) (\<lambda>_.
           core_info ''SSH tools are available''))))
          (\<lambda>error.
             bind (core_error (Str ''Failed to setup SSH tools'')) (\<lambda>_.
             bind (core_error (ErrObj error)) (\<lambda>_.
             throw error))))
       core_endGroup)"

definition terminate_agent_deps :: "ext \<Rightarrow> unit m" where
  "terminate_agent_deps x =
     bind (core_info ''Terminating SSH agent...'') (\<lambda>_.
     bind (exec_exec x (agent_kill x) ''ssh-agent'' [''-k'']) (\<lambda>_.
     ret ()))"

definition startSshAgentWithDeps :: "ext \<Rightarrow> string \<Rightarrow> (unit m) m" where
  "startSshAgentWithDeps x privateKey =
     bind (core_startGroup (closed_lock_with_key @ '' Setting up SSH Agent'')) (\<lambda>_.
     try_finally
       (try_catch
          (bind (whenM (privateKey = []) (throw (Error ''Private key is required''))) (\<lambda>_.
           bind (core_info ''Starting ssh-agent process...'') (\<lambda>_.
           bind (getExecOutput x (agent_start x) ''ssh-agent'' [''-s''] None False) (\<lambda>agentInfo.
           bind (core_info ''ssh-agent output:'') (\<lambda>_.
           bind (whenM (stdout agentInfo = []) (throw (Error ''Failed to get ssh-agent output'')))
             (\<lambda>_.
           case (match_assignment ''SSH_AUTH_SOCK'' (stdout agentInfo),
                 match_assignment ''SSH_AGENT_PID'' (stdout agentInfo)) of
             (Some authSock, Some agentPid) \<Rightarrow>
               bind (set_env ''SSH_AUTH_SOCK'' authSock) (\<lambda>_.
               bind (set_env ''SSH_AGENT_PID'' agentPid) (\<lambda>_.
               bind (core_info (''SSH Agent started with PID: '' @ agentPid)) (\<lambda>_.
               bind (core_info ''Adding SSH key to agent...'') (\<lambda>_.
               bind (getExecOutput x (ssh_add x) ''ssh-add'' [''-''] (Some privateKey) False) (\<lambda>_.
               bind (core_info ''SSH key added successfully'') (\<lambda>_.
               ret (terminate_agent_deps x)))))))
           | _ \<Rightarrow> throw (Error ''Failed to parse ssh-agent output'')))))))
          (\<lambda>error.
             bind (core_error (Str ''Failed to setup SSH agent'')) (\<lambda>_.
             bind (core_error (ErrObj error)) (\<lambda>_.
             throw error))))
       core_endGroup)"

fun count_loop_deps :: "ext \<Rightarrow> string \<Rightarrow> string list list \<Rightarrow> nat \<Rightarrow> nat m" where
  "count_loop_deps x directory [] count = ret count"
| "count_loop_deps x directory (file # files) count =
     bind (statSync x directory file) (\<lambda>st.
     count_loop_deps x directory files (if isFile st then count + 1 else count))"

definition getFileCountWithDeps :: "ext \<Rightarrow> string \<Rightarrow> nat m" where
  "getFileCountWithDeps x directory =
     bind (readdirSync_recursive x directory) (\<lambda>files.
     count_loop_deps x directory files 0)"

definition create_batch_file_deps :: "ext \<Rightarrow> config \<Rightarrow> string m" where
  "create_batch_file_deps x c =
     bind (console_log [Str ''Creating SFTP batch file...'']) (\<lambda>_.
     bind (getFileCountWithDeps x (cfg_sourceDir c)) (\<lambda>fileCount.
     bind (console_log
            [Str ''Found '', Num fileCount, Str '' files to transfer in source directory''])
       (\<lambda>_.
     bind (readdirSync_withFileTypes x (cfg_sourceDir c)) (\<lambda>files.
     bind (writeFile x (batch_file_path x)
            (batch_content (path_join x) (cfg_remoteDir c) (cfg_sourceDir c) files) None) (\<lambda>_.
     bind (console_log [Str ''SFTP batch file created successfully at:'',
            Str (batch_file_path x)]) (\<lambda>_.
     bind (console_log [Str ''Batch file contents:'',
            Str (batch_content (path_join x) (cfg_remoteDir c) (cfg_sourceDir c) files)]) (\<lambda>_.
     ret (batch_file_path x))))))))"

definition prepare_sftp_deps :: "ext \<Rightarrow> config \<Rightarrow> string \<Rightarrow> (string \<times> string) m" where
  "prepare_sftp_deps x c batchFilePath =
     bind (console_log [Str ''Preparing SFTP command...'']) (\<lambda>_.
     bind (writeFile x (identity_file_path x) (cfg_privateKey c) (Some mode_0600))
       (\<lambda>_.
     bind (console_log [Str ''Identity file created at: '',
            Str (identity_file_path x)]) (\<lambda>_.
     bind (console_log [Str ''Executing SFTP command: '',
            Str (sftp_command (identity_file_path x) batchFilePath c)])
       (\<lambda>_.
     ret (identity_file_path x,
          sftp_command (identity_file_path x) batchFilePath c)))))"

definition delete_identity_deps :: "ext \<Rightarrow> string \<Rightarrow> unit m" where
  "delete_identity_deps x identityFile =
     try_catch
       (bind (unlink x identityFile) (\<lambda>_.
        console_log [Str ''Temporary identity file deleted'']))
       (\<lambda>err. console_warn [Str ''Error deleting temporary identity file:'', ErrObj err])"

definition deploy_transfer_deps :: "ext \<Rightarrow> string \<Rightarrow> string \<Rightarrow> unit m" where
  "deploy_transfer_deps x identityFile sftpCommand =
     bind (console_log [Str ''Starting file transfer...'']) (\<lambda>_.
     try_catch
       (bind (getExecOutput x (sftp x) sftpCommand [] None False) (\<lambda>result.
        bind (console_log [Str ''SFTP command output:'', Str (stdout result)]) (\<lambda>_.
        bind (whenM (stderr result \<noteq> [])
               (console_warn [Str ''SFTP command stderr:'', Str (stderr result)])) (\<lambda>_.
        bind (console_log
               [Str ''SFTP transfer completed with exit code: '', Num (exitCode result)]) (\<lambda>_.
        delete_identity_deps x identityFile)))))
       (\<lambda>sftpError.
          bind (console_error [Str ''SFTP command failed:'', ErrObj sftpError]) (\<lambda>_.
          bind (delete_identity_deps x identityFile) (\<lambda>_.
          throw sftpError))))"

definition deploy_cleanup_deps :: "ext \<Rightarrow> string \<Rightarrow> unit m" where
  "deploy_cleanup_deps x batchFilePath =
     bind (console_log [Str ''Starting cleanup process...'']) (\<lambda>_.
     bind (try_catch
            (bind (unlink x batchFilePath) (\<lambda>_.
             console_log [Str ''Batch file deleted successfully'']))
            (\<lambda>error. console_warn [Str ''Error deleting batch file:'', ErrObj error])) (\<lambda>_.
     try_catch
       (bind (exec_exec x (agent_kill x) ''ssh-agent'' [''-k'']) (\<lambda>_.
        console_log [Str ''SSH agent killed successfully'']))
       (\<lambda>error. console_warn [Str ''Error killing SSH agent:'', ErrObj error])))"

definition deploy_prepare_deps :: "ext \<Rightarrow> config \<Rightarrow> (string \<times> string \<times> string) m" where
  "deploy_prepare_deps x c =
     bind (console_log [Str ''Starting SSH agent...'']) (\<lambda>_.
     bind (startSshAgentWithDeps x (cfg_privateKey c)) (\<lambda>agentInfo.
     bind (console_log [Str ''SSH agent started successfully:'', Closure]) (\<lambda>_.
     bind (create_batch_file_deps x c) (\<lambda>batchFilePath.
     bind (prepare_sftp_deps x c batchFilePath) (\<lambda>(identityFile, sftpCommand).
     ret (batchFilePath, identityFile, sftpCommand))))))"

definition deploy_run_deps :: "ext \<Rightarrow> config \<Rightarrow> bool m" where
  "deploy_run_deps x c =
     bind (deploy_prepare_deps x c) (\<lambda>(batchFilePath, identityFile, sftpCommand).
     bind (deploy_transfer_deps x identityFile sftpCommand) (\<lambda>_.
     bind (deploy_cleanup_deps x batchFilePath) (\<lambda>_.
     bind (console_log [Str ''Deployment completed successfully!'']) (\<lambda>_.
     ret True))))"

definition deploy_failed_deps :: "err \<Rightarrow> bool m" where
  "deploy_failed_deps error =
     bind (console_error [Str ''Deployment failed with error:'', ErrObj error]) (\<lambda>_.
     bind (console_error [Str ''Error stack trace:'', Stack error]) (\<lambda>_.
     throw error))"

text \<open>
  The parameters: a property that is \<open>undefined\<close> takes its default, which reads the
  input of the action.
\<close>

record params =
  param_host :: "string option"
  param_username :: "string option"
  param_port :: "string option"
  param_sourceDir :: "string option"
  param_remoteDir :: "string option"
  param_privateKey :: "string option"

definition param :: "string option \<Rightarrow> string m \<Rightarrow> string m" where
  "param v dflt = (case v of Some s \<Rightarrow> ret s | None \<Rightarrow> dflt)"

text \<open>
  From \<open>// Validate inputs\<close> to the configuration message: the key is registered as a
  secret as it was passed.
\<close>

definition validate_inputs_deps :: "config \<Rightarrow> unit m" where
  "validate_inputs_deps c =
     bind (console_log [Str ''Validating input parameters...'']) (\<lambda>_.
     bind (core_setSecret (cfg_privateKey c)) (\<lambda>_.
     console_log (config_summary (replicate 16 CHR '' '') c)))"

definition deployWithDependencies :: "ext \<Rightarrow> params \<Rightarrow> bool m" where
  "deployWithDependencies x params =
     bind (param (param_host params) (getInput x ''host'' True)) (\<lambda>host.
     bind (param (param_username params) (getInput x ''username'' True)) (\<lambda>username.
     bind (param (param_port params)
            (bind (getInput x ''port'' False) (\<lambda>p. ret (or_default p ''22'')))) (\<lambda>port.
     bind (param (param_sourceDir params) (getInput x ''source_dir'' True)) (\<lambda>sourceDir.
     bind (param (param_remoteDir params) (getInput x ''remote_dir'' True)) (\<lambda>remoteDir.
     bind (param (param_privateKey params) (getInput x ''private_key'' True)) (\<lambda>privateKey.
     bind (console_log [Str ''Starting deployment process with injected dependencies...''])
       (\<lambda>_.
     try_catch
       (bind (checkAndInstallSshToolsWithDeps x) (\<lambda>_.
        bind (validate_inputs_deps
               \<lparr>cfg_host = host, cfg_username = username, cfg_port = port,
                cfg_sourceDir = sourceDir, cfg_remoteDir = remoteDir,
                cfg_privateKey = privateKey\<rparr>) (\<lambda>_.
        deploy_run_deps x
          \<lparr>cfg_host = host, cfg_username = username, cfg_port = port,
           cfg_sourceDir = sourceDir, cfg_remoteDir = remoteDir,
           cfg_privateKey = privateKey\<rparr>)))
       deploy_failed_deps)))))))"

subsection \<open>The ES module variant of \<open>src/deploy.js\<close>\<close>

definition core_info_parts :: "arg list \<Rightarrow> unit m" where
  "core_info_parts as = emit (Log CoreInfo as)"

definition get_env :: "string \<Rightarrow> string m" where
  "get_env name = (\<lambda>w. (Inr (case penv w name of None \<Rightarrow> [] | Some v \<Rightarrow> v), w, []))"

definition rocket :: string where
  "rocket = [CHR 0xF0, CHR 0x9F, CHR 0x9A, CHR 0x80]"

definition inbox_tray :: string where
  "inbox_tray = [CHR 0xF0, CHR 0x9F, CHR 0x93, CHR 0xA5]"

definition memo :: string where
  "memo = [CHR 0xF0, CHR 0x9F, CHR 0x93, CHR 0x9D]"

definition outbox_tray :: string where
  "outbox_tray = [CHR 0xF0, CHR 0x9F, CHR 0x93, CHR 0xA4]"

definition broom :: string where
  "broom = [CHR 0xF0, CHR 0x9F, CHR 0xA7, CHR 0xB9]"

definition check_mark :: string where
  "check_mark = [CHR 0xE2, CHR 0x9C, CHR 0x85]"

definition cross_mark :: string where
  "cross_mark = [CHR 0xE2, CHR 0x9D, CHR 0x8C]"

text \<open>\<open>s.match(...)[1]\<close>: reading the capture of a failed match is a \<open>TypeError\<close>.\<close>

definition capture :: "string \<Rightarrow> string \<Rightarrow> string m" where
  "capture name s =
     (case match_assignment name s of
        None \<Rightarrow> throw (Error (''Cannot read properties of null (reading ''
                   @ [CHR 0x27] @ ''1'' @ [CHR 0x27] @ '')''))
      | Some v \<Rightarrow> ret v)"

definition terminate_agent_esm :: "ext \<Rightarrow> unit m" where
  "terminate_agent_esm x =
     bind (core_info ''Terminating SSH agent...'') (\<lambda>_.
     bind (exec_exec x (agent_kill x) ''ssh-agent'' [''-k'']) (\<lambda>_.
     ret ()))"

definition startSshAgent_esm :: "ext \<Rightarrow> string \<Rightarrow> (unit m) m" where
  "startSshAgent_esm x privateKey =
     bind (core_startGroup (closed_lock_with_key @ '' Setting up SSH Agent'')) (\<lambda>_.
     try_finally
       (try_catch
          (bind (core_info ''Starting ssh-agent process...'') (\<lambda>_.
           bind (getExecOutput x (agent_start x) ''ssh-agent'' [''-s''] None False) (\<lambda>agentInfo.
           bind (capture ''SSH_AUTH_SOCK'' (stdout agentInfo)) (\<lambda>authSock.
           bind (capture ''SSH_AGENT_PID'' (stdout agentInfo)) (\<lambda>agentPid.
           bind (set_env ''SSH_AUTH_SOCK'' authSock) (\<lambda>_.
           bind (set_env ''SSH_AGENT_PID'' agentPid) (\<lambda>_.
           bind (core_info (''SSH Agent started with PID: '' @ agentPid)) (\<lambda>_.
           bind (core_info ''Adding SSH key to agent...'') (\<lambda>_.
           bind (getExecOutput x (ssh_add x) ''ssh-add'' [''-''] (Some privateKey) False) (\<lambda>_.
           bind (core_info ''SSH key added successfully'') (\<lambda>_.
           ret (terminate_agent_esm x))))))))))))
          (\<lambda>error.
             bind (core_error (Str ''Failed to setup SSH agent'')) (\<lambda>_.
             throw error)))
       core_endGroup)"

fun count_loop_esm :: "ext \<Rightarrow> string \<Rightarrow> string list list \<Rightarrow> nat \<Rightarrow> nat m" where
  "count_loop_esm x directory [] count = ret count"
| "count_loop_esm x directory (file # files) count =
     bind (statSync x directory file) (\<lambda>st.
     count_loop_esm x directory files (if isFile st then count + 1 else count))"

definition getFileCount_esm :: "ext \<Rightarrow> string \<Rightarrow> nat m" where
  "getFileCount_esm x directory =
     bind (readdirSync_recursive x directory) (\<lambda>files.
     count_loop_esm x directory files 0)"

text \<open>
  The listeners that \<open>deploy\<close> passes to \<open>exec.exec\<close>: every chunk of output is
  trimmed and logged.
\<close>

fun run_listeners :: "chunk list \<Rightarrow> unit m" where
  "run_listeners [] = ret ()"
| "run_listeners (OutData d # cs) =
     bind (whenM (trim d \<noteq> []) (core_info (trim d))) (\<lambda>_.
     run_listeners cs)"
| "run_listeners (ErrData d # cs) =
     bind (if str_includes (trim d) ''Error'' \<or> str_includes (trim d) ''fatal''
           then core_error (Str (trim d))
           else if str_includes (trim d) ''Warning'' then core_warning (trim d)
           else core_info (trim d)) (\<lambda>_.
     run_listeners cs)"

text \<open>\<open>exec.exec(cmd, args, { listeners })\<close>.\<close>

definition exec_exec_listeners ::
  "ext \<Rightarrow> proc \<Rightarrow> chunk list \<Rightarrow> string \<Rightarrow> string list \<Rightarrow> nat m" where
  "exec_exec_listeners x p chunks cmd args =
     bind (emit (Spawn cmd args None)) (\<lambda>_.
       case p of
         SpawnFails msg \<Rightarrow> throw (Error msg)
       | Exits out e c \<Rightarrow>
           bind (run_listeners chunks) (\<lambda>_.
           if c \<noteq> 0 then throw (Error (exit_message x cmd c))
           else bind (modify (tool_effect cmd args None)) (\<lambda>_. ret c)))"

text \<open>The \<open>try\<close> block from its start to the assignment of \<open>cleanup\<close>.\<close>

definition deploy_begin_esm :: "ext \<Rightarrow> (config \<times> nat \<times> unit m) m" where
  "deploy_begin_esm x =
     bind (core_info (rocket @ '' Starting SFTP deployment...'')) (\<lambda>_.
     bind (core_startGroup (inbox_tray @ '' Validating inputs'')) (\<lambda>_.
     bind (getInput x ''host'' True) (\<lambda>host.
     bind (getInput x ''username'' True) (\<lambda>username.
     bind (getInput x ''port'' False) (\<lambda>p.
     bind (getInput x ''source-dir'' False) (\<lambda>s.
     bind (getInput x ''remote-dir'' False) (\<lambda>r.
     bind (getInput x ''private-key'' True) (\<lambda>privateKey.
     bind (core_setSecret privateKey) (\<lambda>_.
     bind (core_info (''Host: '' @ host)) (\<lambda>_.
     bind (core_info (''Username: '' @ username)) (\<lambda>_.
     bind (core_info (''Port: '' @ or_default p ''22'')) (\<lambda>_.
     bind (core_info (''Source directory: '' @ or_default s ''./dist'')) (\<lambda>_.
     bind (core_info (''Remote directory: '' @ or_default r ''/var/www/html'')) (\<lambda>_.
     bind (whenM (\<not> existsSync x (or_default s ''./dist''))
            (throw (Error (''Source directory '' @ or_default s ''./dist''
                             @ '' does not exist'')))) (\<lambda>_.
     bind (getFileCount_esm x (or_default s ''./dist'')) (\<lambda>fileCount.
     bind (core_info_parts [Str ''Found '', Num fileCount, Str '' files to upload'']) (\<lambda>_.
     bind core_endGroup (\<lambda>_.
     bind (startSshAgent_esm x privateKey) (\<lambda>cleanup.
     ret (\<lparr>cfg_host = host, cfg_username = username, cfg_port = or_default p ''22'',
           cfg_sourceDir = or_default s ''./dist'',
           cfg_remoteDir = or_default r ''/var/www/html'',
           cfg_privateKey = privateKey\<rparr>, fileCount, cleanup))))))))))))))))))))"

definition batch_commands_esm :: "config \<Rightarrow> string" where
  "batch_commands_esm c =
     ''mkdir -p '' @ cfg_remoteDir c @ ''\<newline>'' @ ''cd '' @ cfg_remoteDir c @ ''\<newline>''
       @ ''put -r '' @ cfg_sourceDir c @ ''/* .''"

text \<open>The inner \<open>try\<close>/\<open>finally\<close>: the transfer, and the deletion of the batch file.\<close>

definition transfer_esm :: "ext \<Rightarrow> config \<Rightarrow> string \<Rightarrow> unit m" where
  "transfer_esm x c batchFilePath =
     try_finally
       (bind (core_startGroup (outbox_tray @ '' Executing SFTP transfer'')) (\<lambda>_.
        bind (core_info ''Starting file transfer...'') (\<lambda>_.
        bind (exec_exec_listeners x (sftp x) (sftp_stream x) ''sftp''
               [''-P'', cfg_port c, ''-o'', ''StrictHostKeyChecking=no'', ''-b'', batchFilePath,
                cfg_username c @ ''@'' @ cfg_host c]) (\<lambda>_.
        bind (core_info (check_mark @ '' SFTP transfer completed successfully'')) (\<lambda>_.
        core_endGroup)))))
       (bind (core_startGroup (broom @ '' Cleanup'')) (\<lambda>_.
        bind (try_catch
               (bind (unlink x batchFilePath) (\<lambda>_.
                core_info ''Batch file deleted''))
               (\<lambda>error. core_warning (''Failed to delete batch file: '' @ message error)))
          (\<lambda>_.
        core_endGroup)))"

text \<open>The \<open>try\<close> block after the assignment of \<open>cleanup\<close>, to the outputs.\<close>

definition deploy_rest_esm :: "ext \<Rightarrow> config \<Rightarrow> nat \<Rightarrow> unit m" where
  "deploy_rest_esm x c fileCount =
     bind (core_startGroup (memo @ '' Preparing SFTP batch file'')) (\<lambda>_.
     bind (get_env ''RUNNER_TEMP'') (\<lambda>runner_temp.
     bind (writeFile x (path_join x (or_default runner_temp ''/tmp'') ''sftp_batch'')
            (batch_commands_esm c) None) (\<lambda>_.
     bind (core_info ''SFTP batch file created'') (\<lambda>_.
     bind (core_debug (''Batch file contents:\<newline>'' @ batch_commands_esm c)) (\<lambda>_.
     bind core_endGroup (\<lambda>_.
     bind (transfer_esm x c (path_join x (or_default runner_temp ''/tmp'') ''sftp_batch''))
       (\<lambda>_.
     bind (core_setOutput ''deployed-files'' (Num fileCount)) (\<lambda>_.
     core_setOutput ''deployment-time'' (Str (now_iso x))))))))))"

text \<open>The \<open>catch\<close> block.\<close>

definition deploy_failed_esm :: "err \<Rightarrow> unit m" where
  "deploy_failed_esm error =
     bind (core_error (Str (cross_mark @ '' Deployment failed''))) (\<lambda>_.
     core_setFailed (message error))"

text \<open>The outer \<open>finally\<close> block when \<open>cleanup\<close> is set.\<close>

definition cleanup_agent_esm :: "unit m \<Rightarrow> unit m" where
  "cleanup_agent_esm cleanup =
     bind (core_startGroup (broom @ '' Cleaning up SSH agent'')) (\<lambda>_.
     bind (try_catch
            (bind cleanup (\<lambda>_.
             core_info ''SSH agent terminated''))
            (\<lambda>error. core_warning (''Failed to cleanup ssh-agent: '' @ message error))) (\<lambda>_.
     core_endGroup))"

text \<open>
  \<^verbatim>\<open>let cleanup = null; try { ... cleanup = await startSshAgent(privateKey); ... }\<close>
  \<^verbatim>\<open>catch (error) { ... } finally { if (cleanup) { ... } }\<close>:
  when an error is thrown before \<open>cleanup\<close> is assigned, the \<open>catch\<close> block runs and the
  \<open>finally\<close> block does nothing; after the assignment, the \<open>catch\<close> block runs on an
  error and the \<open>finally\<close> block always.
\<close>

definition deploy_esm :: "ext \<Rightarrow> unit m" where
  "deploy_esm x =
     try_catch
       (bind (deploy_begin_esm x) (\<lambda>(c, fileCount, cleanup).
        try_finally
          (try_catch (deploy_rest_esm x c fileCount) deploy_failed_esm)
          (cleanup_agent_esm cleanup)))
       deploy_failed_esm"

section \<open>Notions used in the statements\<close>

subsection \<open>The manifest and its directives\<close>

text \<open>
  The manifest of a directory listing: the names of its regular files, in the order of
  the listing. A transfer directive quotes the local path and the remote name.
\<close>

definition manifest :: "(string \<times> node) list \<Rightarrow> string list" where
  "manifest files = map fst (filter (\<lambda>(name, kind). kind = File) files)"

definition put_directive :: "(string \<Rightarrow> string \<Rightarrow> string) \<Rightarrow> string \<Rightarrow> string \<Rightarrow> string" where
  "put_directive join sourceDir name =
     ''put '' @ [CHR 0x22] @ join sourceDir name @ [CHR 0x22] @ '' ''
       @ [CHR 0x22] @ name @ [CHR 0x22] @ ''\<newline>''"

subsection \<open>Events\<close>

fun is_log :: "event \<Rightarrow> bool" where
  "is_log (Log s as) = True"
| "is_log _ = False"

fun is_output :: "event \<Rightarrow> bool" where
  "is_output (SetOutput n v) = True"
| "is_output _ = False"

fun is_spawn :: "event \<Rightarrow> bool" where
  "is_spawn (Spawn c as i) = True"
| "is_spawn _ = False"

fun is_failed :: "event \<Rightarrow> bool" where
  "is_failed (SetFailed m) = True"
| "is_failed _ = False"


definition effects :: "event list \<Rightarrow> event list" where
  "effects evs = filter (\<lambda>ev. \<not> is_log ev) evs"

text \<open>
  The places where an event carries a secret text: the text registered as a secret, the
  standard input of a child process, the content of a file written with a mode.
\<close>

fun payload :: "event \<Rightarrow> string option" where
  "payload (SetSecret s) = Some s"
| "payload (Spawn c as (Some s)) = Some s"
| "payload (WriteFile p s (Some mode)) = Some s"
| "payload _ = None"

text \<open>
  An event that is given the text \<open>s\<close> or shows something computed from it: a child
  process that reads \<open>s\<close>, a file with the content \<open>s\<close>, a message with \<open>s\<close> or with the
  length of \<open>s\<close> among its parts.
\<close>

fun derived_from :: "string \<Rightarrow> event \<Rightarrow> bool" where
  "derived_from s (Spawn c as inp) = (inp = Some s)"
| "derived_from s (WriteFile p content mode) = (content = s)"
| "derived_from s (Log k as) = (Str s \<in> set as \<or> Num (length s) \<in> set as)"
| "derived_from s _ = False"

text \<open>
  The configuration that \<open>deploy\<close> works with when all required inputs are there.
\<close>

definition config_of :: "ext \<Rightarrow> config" where
  "config_of x =
     \<lparr>cfg_host = input_value x ''host'', cfg_username = input_value x ''username'',
      cfg_port = or_default (input_value x ''port'') ''22'',
      cfg_sourceDir = input_value x ''source_dir'', cfg_remoteDir = input_value x ''remote_dir'',
      cfg_privateKey = normalizeKey (input_value x ''private_key'')\<rparr>"

text \<open>
  The events of \<open>checkAndInstallSshTools\<close>, and the events of the steps that follow
  the validation, for a configuration \<open>c\<close>: messages, the two environment variables,
  the four child processes, the two files and their deletion.
\<close>

fun tools_event :: "event \<Rightarrow> bool" where
  "tools_event (Log s as) = True"
| "tools_event (Spawn cmd args inp) =
     (inp = None \<and> (cmd, args) \<in> {(''which'', [''ssh-add'']),
        (''sudo'', [''apt-get'', ''update'']),
        (''sudo'', [''apt-get'', ''install'', ''-y'', ''openssh-client''])})"
| "tools_event _ = False"

fun run_event :: "ext \<Rightarrow> config \<Rightarrow> event \<Rightarrow> bool" where
  "run_event x c (Log s as) = True"
| "run_event x c (SetEnv n v) = True"
| "run_event x c (Spawn cmd args inp) =
     ((cmd, args, inp) \<in> {(''ssh-agent'', [''-s''], None),
        (''ssh-add'', [''-''], Some (cfg_privateKey c)),
        (sftp_command (identity_file_path x) (batch_file_path x) c, [], None),
        (''ssh-agent'', [''-k''], None)})"
| "run_event x c (WriteFile p content mode) =
     ((mode = None \<and> p = batch_file_path x
        \<and> (case stat x (cfg_sourceDir c) of
             Some (Dir files) \<Rightarrow>
               content = batch_content (path_join x) (cfg_remoteDir c) (cfg_sourceDir c) files
           | _ \<Rightarrow> False))
      \<or> (mode = Some mode_0600 \<and> p = identity_file_path x \<and> content = cfg_privateKey c))"
| "run_event x c (Unlink p) = (p = identity_file_path x \<or> p = batch_file_path x)"
| "run_event x c _ = False"

definition deploy_event :: "ext \<Rightarrow> config \<Rightarrow> event \<Rightarrow> bool" where
  "deploy_event x c ev =
     (tools_event ev \<or> ev = SetSecret (cfg_privateKey c) \<or> run_event x c ev)"


text \<open>The run with another private key as the input \<open>private_key\<close>.\<close>

definition with_key :: "ext \<Rightarrow> string \<Rightarrow> ext" where
  "with_key x k = x\<lparr>inputs := (inputs x)(''private_key'' := k)\<rparr>"

subsection \<open>A run for the examples\<close>

text \<open>
  A Linux runner on which \<open>ssh-add\<close> is installed, the agent starts and prints its two
  assignments, every write and deletion works. The source directory, the private key
  and the way the sftp client ends are left open. The source directory is \<open>dist\<close>, so
  that \<open>path.join\<close> only puts a \<open>/\<close> between its arguments; the tools are found in
  \<open>/usr/bin\<close>, and the error for a non-zero exit status has the text that
  \<open>@actions/exec\<close> gives it.
\<close>

fun decimal :: "nat \<Rightarrow> string" where
  "decimal n =
     (if n < 10 then [char_of (48 + n)] else decimal (n div 10) @ [char_of (48 + n mod 10)])"

declare decimal.simps [simp del]

definition example_inputs :: "string \<Rightarrow> string \<Rightarrow> string" where
  "example_inputs key name =
     (if name = ''host'' then ''h''
      else if name = ''username'' then ''u''
      else if name = ''port'' then ''22''
      else if name = ''source_dir'' \<or> name = ''source-dir'' then ''dist''
      else if name = ''remote_dir'' \<or> name = ''remote-dir'' then ''/var/www/html''
      else if name = ''private_key'' \<or> name = ''private-key'' then key
      else [])"

definition example_ext :: "string \<Rightarrow> node option \<Rightarrow> proc \<Rightarrow> ext" where
  "example_ext key tree client =
     \<lparr>platform = ''linux'', tmpdir = ''/tmp'', path_join = (\<lambda>a b. a @ ''/'' @ b),
      inputs = example_inputs key,
      fs_lookup = (\<lambda>p. if p = ''dist'' then tree else None),
      write_error = (\<lambda>p. None), unlink_error = (\<lambda>p. None),
      which_first = Exits ''/usr/bin/ssh-add'' [] 0,
      apt_update = Exits [] [] 0, apt_install = Exits [] [] 0,
      which_verify = Exits ''/usr/bin/ssh-add'' [] 0,
      agent_start = Exits ''SSH_AUTH_SOCK=/tmp/agent.1; export SSH_AUTH_SOCK;\<newline>SSH_AGENT_PID=12; export SSH_AGENT_PID;\<newline>'' [] 0,
      ssh_add = Exits [] [] 0, sftp = client, sftp_stream = [],
      agent_kill = Exits [] [] 0,
      exit_message = (\<lambda>commandLine code.
         ''The process '' @ quoted (''/usr/bin/'' @ takeWhile (\<lambda>c. c \<noteq> CHR '' '') commandLine)
           @ '' failed with exit code '' @ decimal code),
      now_iso = ''2024-01-01T00:00:00.000Z''\<rparr>"

definition two_files :: node where
  "two_files = Dir [(''a.txt'', File), (''b.txt'', File)]"

definition nested :: node where
  "nested = Dir [(''a.txt'', File), (''sub'', Dir [(''b.txt'', File)])]"

definition refused :: proc where
  "refused = Exits [] ''Connection refused'' 1"

definition transferred :: proc where
  "transferred = Exits [] [] 0"

text \<open>
  A computation causes only events that satisfy \<open>P\<close>, in whatever state it starts.
\<close>

definition emits :: "(event \<Rightarrow> bool) \<Rightarrow> 'a m \<Rightarrow> bool" where
  "emits P f = (\<forall>w. list_all P (events (f w)))"

text \<open>Whenever a computation ends with a value, the value satisfies \<open>R\<close>.\<close>

definition yields :: "('a \<Rightarrow> bool) \<Rightarrow> 'a m \<Rightarrow> bool" where
  "yields R f = (\<forall>w a. result (f w) = Inr a \<longrightarrow> R a)"

text \<open>Events other than the setting of an output or of the failure of the action.\<close>

definition quiet :: "event \<Rightarrow> bool" where
  "quiet ev = (\<not> is_output ev \<and> \<not> is_failed ev)"

text \<open>Events other than a call of a command line without arguments.\<close>

fun no_client :: "event \<Rightarrow> bool" where
  "no_client (Spawn cmd args inp) = (args \<noteq> [])"
| "no_client _ = True"

text \<open>
  A computation always throws, and when it has called a command line without arguments
  the error is the one for the exit status \<open>code\<close> of that command line.
\<close>

definition client_failure :: "ext \<Rightarrow> nat \<Rightarrow> 'a m \<Rightarrow> bool" where
  "client_failure x code f =
     (\<forall>w. (\<exists>e. result (f w) = Inl e)
        \<and> (\<forall>cmd. Spawn cmd [] None \<in> set (events (f w)) \<longrightarrow>
               result (f w) = Inl (Error (exit_message x cmd code))))"

text \<open>
  The same for the ES module variant, which calls the client as \<open>sftp\<close> with its
  arguments: events other than a call of \<open>sftp\<close>; and a computation that always throws,
  with the error for the exit status \<open>code\<close> of \<open>sftp\<close> when it has called it.
\<close>

fun no_sftp :: "event \<Rightarrow> bool" where
  "no_sftp (Spawn cmd args inp) = (cmd \<noteq> ''sftp'')"
| "no_sftp _ = True"

definition sftp_failure :: "ext \<Rightarrow> nat \<Rightarrow> 'a m \<Rightarrow> bool" where
  "sftp_failure x code f =
     (\<forall>w. (\<exists>e. result (f w) = Inl e)
        \<and> ((\<exists>ev \<in> set (events (f w)). \<not> no_sftp ev) \<longrightarrow>
               result (f w) = Inl (Error (exit_message x ''sftp'' code))))"

text \<open>A computation leaves a part \<open>g\<close> of the state as it was.\<close>

definition keeps :: "(world \<Rightarrow> 'b) \<Rightarrow> 'a m \<Rightarrow> bool" where
  "keeps g f = (\<forall>w. g (final (f w)) = g w)"

text \<open>The two representations of the credential.\<close>

definition agent_holds :: "world \<Rightarrow> string \<Rightarrow> bool" where
  "agent_holds w key = (case agent w of None \<Rightarrow> False | Some keys \<Rightarrow> key \<in> set keys)"

definition identity_file_holds :: "world \<Rightarrow> string \<Rightarrow> string \<Rightarrow> bool" where
  "identity_file_holds w path key = (disk w path = Some (key, Some mode_0600))"

text \<open>
  The inputs of the action are all there; and the parameters of
  \<open>deployWithDependencies\<close> are the inputs of the action: each is either left out or
  is the value of the input (for the port, the value or its default), with \<open>key\<close> as
  the private key, passed as a parameter or left to the input.
\<close>

definition valid_inputs :: "ext \<Rightarrow> bool" where
  "valid_inputs x =
     (inputs x ''host'' \<noteq> [] \<and> inputs x ''username'' \<noteq> [] \<and> inputs x ''source_dir'' \<noteq> []
      \<and> inputs x ''remote_dir'' \<noteq> [] \<and> inputs x ''private_key'' \<noteq> [])"

definition as_inputs :: "ext \<Rightarrow> params \<Rightarrow> string \<Rightarrow> bool" where
  "as_inputs x p key =
     ((param_host p = None \<or> param_host p = Some (input_value x ''host''))
      \<and> (param_username p = None \<or> param_username p = Some (input_value x ''username''))
      \<and> (param_port p = None \<or> param_port p = Some (or_default (input_value x ''port'') ''22''))
      \<and> (param_sourceDir p = None \<or> param_sourceDir p = Some (input_value x ''source_dir''))
      \<and> (param_remoteDir p = None \<or> param_remoteDir p = Some (input_value x ''remote_dir''))
      \<and> (param_privateKey p = Some key
           \<or> (param_privateKey p = None \<and> input_value x ''private_key'' = key)))"

text \<open>The configuration of the inputs with \<open>key\<close> as the private key.\<close>

definition config_with :: "ext \<Rightarrow> string \<Rightarrow> config" where
  "config_with x key = (config_of x)\<lparr>cfg_privateKey := key\<rparr>"



text \<open>
  What stands between the first double quote of a line and the next one; and the lines
  of a script.
\<close>

definition first_quoted :: "string \<Rightarrow> string" where
  "first_quoted s =
     takeWhile (\<lambda>c. c \<noteq> CHR 0x22) (drop 1 (dropWhile (\<lambda>c. c \<noteq> CHR 0x22) s))"

fun split_lines :: "string \<Rightarrow> string \<Rightarrow> string list" where
  "split_lines line [] = (if line = [] then [] else [line])"
| "split_lines line (c # cs) =
     (if c = CHR 0x0A then line # split_lines [] cs else split_lines (line @ [c]) cs)"

definition script_lines :: "string \<Rightarrow> string list" where
  "script_lines s = split_lines [] s"

text \<open>
  The outcome of a run put together from the outcome of its parts: the first message,
  the check of the tools, the events of the validation, and the rest of the run; an
  error of the check or of the rest is logged by the outer \<open>catch\<close> and thrown again.
\<close>

definition assemble ::
  "event \<Rightarrow> event list \<Rightarrow> unit outcome \<Rightarrow> (world \<Rightarrow> bool outcome) \<Rightarrow> bool outcome" where
  "assemble first validation tools rest =
     (case tools of
        (Inl e, w1, e1) \<Rightarrow> (Inl e, w1, first # e1 @ events (deploy_failed e w1))
      | (Inr u, w1, e1) \<Rightarrow>
          (case rest w1 of
             (Inl e, w2, e2) \<Rightarrow>
               (Inl e, w2, first # e1 @ validation @ e2 @ events (deploy_failed e w2))
           | (Inr b, w2, e2) \<Rightarrow> (Inr b, w2, first # e1 @ validation @ e2)))"

text \<open>
  Up to the first occurrence of the event \<open>s\<close>, a computation causes only events that
  satisfy \<open>P\<close>; and a computation that ends with a value has caused the event \<open>s\<close>.
\<close>

definition clean_until :: "event \<Rightarrow> (event \<Rightarrow> bool) \<Rightarrow> 'a m \<Rightarrow> bool" where
  "clean_until s P f = (\<forall>w. list_all P (takeWhile (\<lambda>ev. ev \<noteq> s) (events (f w))))"

definition registers :: "event \<Rightarrow> 'a m \<Rightarrow> bool" where
  "registers s f = (\<forall>w a. result (f w) = Inr a \<longrightarrow> s \<in> set (events (f w)))"

text \<open>
  The event with the text \<open>k\<close> in the place of its secret text, if it carries one.
\<close>

fun set_payload :: "string \<Rightarrow> event \<Rightarrow> event" where
  "set_payload k (SetSecret s) = SetSecret k"
| "set_payload k (Spawn c as (Some s)) = Spawn c as (Some k)"
| "set_payload k (WriteFile p s (Some mode)) = WriteFile p k (Some mode)"
| "set_payload k ev = ev"

text \<open>
  Two computations are alike for a key \<open>k\<close> when, started in states with the same
  temporary files (whatever their content), they end with the same error or with
  values related by \<open>Q\<close>, the second has caused the events of the first with \<open>k\<close> in
  the place of every secret text, and they leave the same temporary files.
\<close>

definition alike :: "string \<Rightarrow> ('a \<Rightarrow> 'b \<Rightarrow> bool) \<Rightarrow> 'a m \<Rightarrow> 'b m \<Rightarrow> bool" where
  "alike k Q f g =
     (\<forall>w1 w2. dom (disk w1) = dom (disk w2) \<longrightarrow>
        rel_sum (=) Q (result (f w1)) (result (g w2))
        \<and> events (g w2) = map (set_payload k) (events (f w1))
        \<and> dom (disk (final (f w1))) = dom (disk (final (g w2))))"

definition clean_world :: world where
  "clean_world = \<lparr>disk = Map.empty, agent = None, penv = Map.empty\<rparr>"

section \<open>Lemmas\<close>

subsection \<open>Strings\<close>

lemma endsWith_append_self: "endsWith (s @ t) t"
  by (simp add: endsWith_def)

lemma endsWith_newline_iff: "endsWith s ''\<newline>'' \<longleftrightarrow> s \<noteq> [] \<and> last s = CHR ''\<newline>''"
proof (cases s rule: rev_cases)
  case Nil
  then show ?thesis by (simp add: endsWith_def)
next
  case (snoc ys y)
  then show ?thesis by (simp add: endsWith_def)
qed

subsection \<open>Outcomes and events of the combinators\<close>

lemma result_simp [simp]: "result (r, w, evs) = r" by (simp add: result_def)
lemma final_simp [simp]: "final (r, w, evs) = w" by (simp add: final_def)
lemma events_simp [simp]: "events (r, w, evs) = evs" by (simp add: events_def)

lemma outcome_eq: "f = (result f, final f, events f)"
  by (cases f) simp

lemma ret_apply [simp]: "ret a w = (Inr a, w, [])" by (simp add: ret_def)
lemma throw_apply [simp]: "throw e w = (Inl e, w, [])" by (simp add: throw_def)
lemma emit_apply [simp]: "emit ev w = (Inr (), w, [ev])" by (simp add: emit_def)
lemma modify_apply [simp]: "modify f w = (Inr (), f w, [])" by (simp add: modify_def)

lemma bind_apply:
  "bind f g w = (case f w of
      (Inl e, w', evs) \<Rightarrow> (Inl e, w', evs)
    | (Inr a, w', evs) \<Rightarrow> (case g a w' of (r, w'', evs') \<Rightarrow> (r, w'', evs @ evs')))"
  by (simp add: bind_def)

lemma bind_Inl: "f w = (Inl e, w', evs) \<Longrightarrow> bind f g w = (Inl e, w', evs)"
  by (simp add: bind_def)

lemma bind_Inr:
  "f w = (Inr a, w', evs) \<Longrightarrow>
   bind f g w = (result (g a w'), final (g a w'), evs @ events (g a w'))"
  by (cases "g a w'") (simp add: bind_def)

lemma try_catch_Inl:
  "f w = (Inl e, w', evs) \<Longrightarrow>
   try_catch f h w = (result (h e w'), final (h e w'), evs @ events (h e w'))"
  by (cases "h e w'") (simp add: try_catch_def)

lemma try_catch_Inr: "f w = (Inr a, w', evs) \<Longrightarrow> try_catch f h w = (Inr a, w', evs)"
  by (simp add: try_catch_def)

lemma emits_ret [intro!]: "emits P (ret a)" by (simp add: emits_def)
lemma emits_throw [intro!]: "emits P (throw e)" by (simp add: emits_def)
lemma emits_modify [intro!]: "emits P (modify f)" by (simp add: emits_def)
lemma emits_emit: "P ev \<Longrightarrow> emits P (emit ev)" by (simp add: emits_def)

lemma emits_bind [intro!]: "emits P f \<Longrightarrow> (\<And>a. emits P (g a)) \<Longrightarrow> emits P (bind f g)"
  unfolding emits_def
proof
  fix w assume f: "\<forall>w. list_all P (events (f w))" and g: "\<And>a. \<forall>w. list_all P (events (g a w))"
  obtain r w' evs where fw: "f w = (r, w', evs)" by (cases "f w")
  have e: "list_all P evs" using f [rule_format, of w] fw by simp
  show "list_all P (events (bind f g w))"
  proof (cases r)
    case (Inl err)
    then show ?thesis using fw e by (simp add: bind_Inl)
  next
    case (Inr a)
    then show ?thesis using fw e g [of a, rule_format, of w'] by (simp add: bind_Inr)
  qed
qed

lemma emits_try_catch [intro!]:
  "emits P f \<Longrightarrow> (\<And>e. emits P (h e)) \<Longrightarrow> emits P (try_catch f h)"
  unfolding emits_def
proof
  fix w assume f: "\<forall>w. list_all P (events (f w))" and h: "\<And>e. \<forall>w. list_all P (events (h e w))"
  obtain r w' evs where fw: "f w = (r, w', evs)" by (cases "f w")
  have e: "list_all P evs" using f [rule_format, of w] fw by simp
  show "list_all P (events (try_catch f h w))"
  proof (cases r)
    case (Inl err)
    then show ?thesis using fw e h [of err, rule_format, of w'] by (simp add: try_catch_Inl)
  next
    case (Inr a)
    then show ?thesis using fw e by (simp add: try_catch_Inr)
  qed
qed

lemma emits_try_finally [intro!]:
  "emits P f \<Longrightarrow> emits P fin \<Longrightarrow> emits P (try_finally f fin)"
  unfolding emits_def
proof
  fix w assume f: "\<forall>w. list_all P (events (f w))" and h: "\<forall>w. list_all P (events (fin w))"
  obtain r w' evs where fw: "f w = (r, w', evs)" by (cases "f w")
  obtain r2 w2 evs2 where hw: "fin w' = (r2, w2, evs2)" by (cases "fin w'")
  have e: "list_all P evs" using f [rule_format, of w] fw by simp
  have e2: "list_all P evs2" using h [rule_format, of w'] hw by simp
  show "list_all P (events (try_finally f fin w))"
    using fw hw e e2 by (cases r2) (simp_all add: try_finally_def)
qed

lemma emits_whenM [intro!]: "(b \<Longrightarrow> emits P f) \<Longrightarrow> emits P (whenM b f)"
  by (auto simp: whenM_def)

lemma emits_if [intro!]:
  "(b \<Longrightarrow> emits P f) \<Longrightarrow> (\<not> b \<Longrightarrow> emits P g) \<Longrightarrow> emits P (if b then f else g)"
  by simp

lemma emits_log [intro!]:
  "P (Log ConsoleLog as) \<Longrightarrow> emits P (console_log as)"
  "P (Log ConsoleWarn as) \<Longrightarrow> emits P (console_warn as)"
  "P (Log ConsoleError as) \<Longrightarrow> emits P (console_error as)"
  "P (Log CoreInfo [Str s]) \<Longrightarrow> emits P (core_info s)"
  "P (Log CoreWarning [Str s]) \<Longrightarrow> emits P (core_warning s)"
  "P (Log CoreError [a]) \<Longrightarrow> emits P (core_error a)"
  "P (Log CoreDebug [Str s]) \<Longrightarrow> emits P (core_debug s)"
  "P (Log CoreStartGroup [Str s]) \<Longrightarrow> emits P (core_startGroup s)"
  "P (Log CoreEndGroup []) \<Longrightarrow> emits P core_endGroup"
  "P (Log CoreInfo as) \<Longrightarrow> emits P (core_info_parts as)"
  by (simp_all add: emits_def console_log_def console_warn_def console_error_def core_info_def
      core_warning_def core_error_def core_debug_def core_startGroup_def core_endGroup_def
      core_info_parts_def)

lemma emits_core [intro!]:
  "P (SetSecret s) \<Longrightarrow> emits P (core_setSecret s)"
  "P (SetOutput n v) \<Longrightarrow> emits P (core_setOutput n v)"
  "P (SetFailed s) \<Longrightarrow> emits P (core_setFailed s)"
  by (simp_all add: emits_def core_setSecret_def core_setOutput_def core_setFailed_def)

lemma emits_getInput [intro!]: "emits P (getInput x n req)"
  by (simp add: emits_def getInput_def)

lemma emits_set_env [intro!]: "P (SetEnv n v) \<Longrightarrow> emits P (set_env n v)"
  unfolding set_env_def by (intro emits_bind emits_emit emits_modify)

lemma emits_getExecOutput [intro!]:
  "P (Spawn cmd args inp) \<Longrightarrow> emits P (getExecOutput x p cmd args inp ign)"
  unfolding getExecOutput_def
  by (cases p) (auto intro!: emits_emit)

lemma emits_exec_exec [intro!]:
  "P (Spawn cmd args None) \<Longrightarrow> emits P (exec_exec x p cmd args)"
  unfolding exec_exec_def by auto

lemma emits_writeFile [intro!]:
  "P (WriteFile path content mode) \<Longrightarrow> emits P (writeFile x path content mode)"
  unfolding writeFile_def
  by (cases "write_error x path") (auto intro!: emits_emit)

lemma emits_unlink [intro!]: "P (Unlink path) \<Longrightarrow> emits P (unlink x path)"
  unfolding unlink_def
  by (cases "unlink_error x path") (auto intro!: emits_emit simp: emits_def bind_apply)


lemma emits_mono: "emits P f \<Longrightarrow> (\<And>ev. P ev \<Longrightarrow> Q ev) \<Longrightarrow> emits Q f"
  by (auto simp: emits_def list_all_iff)

lemma emits_bind_result:
  "emits P f \<Longrightarrow> (\<And>a w. result (f w) = Inr a \<Longrightarrow> emits P (g a)) \<Longrightarrow> emits P (bind f g)"
  unfolding emits_def
proof
  fix w assume f: "\<forall>w. list_all P (events (f w))"
    and g: "\<And>a w. result (f w) = Inr a \<Longrightarrow> \<forall>w. list_all P (events (g a w))"
  obtain r w' evs where fw: "f w = (r, w', evs)" by (cases "f w")
  have e: "list_all P evs" using f [rule_format, of w] fw by simp
  show "list_all P (events (bind f g w))"
  proof (cases r)
    case (Inl err)
    then show ?thesis using fw e by (simp add: bind_Inl)
  next
    case (Inr a)
    then have "result (f w) = Inr a" using fw by simp
    from g [OF this, rule_format, of w'] Inr show ?thesis using fw e by (simp add: bind_Inr)
  qed
qed

lemma emits_D: "emits P f \<Longrightarrow> ev \<in> set (events (f w)) \<Longrightarrow> P ev"
  by (auto simp: emits_def list_all_iff)

subsection \<open>The events of each step\<close>

text \<open>
  Each lemma lists the events that a step of \<open>deploy\<close> can cause: the step causes only
  events that satisfy \<open>P\<close> when \<open>P\<close> holds for the listed ones.
\<close>

lemma emits_checkAndInstallSshTools:
  assumes "\<And>s as. P (Log s as)"
    and "P (Spawn ''which'' [''ssh-add''] None)"
    and "P (Spawn ''sudo'' [''apt-get'', ''update''] None)"
    and "P (Spawn ''sudo'' [''apt-get'', ''install'', ''-y'', ''openssh-client''] None)"
  shows "emits P (checkAndInstallSshTools x)"
  unfolding checkAndInstallSshTools_def using assms by auto

lemma emits_terminate_agent:
  assumes "\<And>s as. P (Log s as)" and "P (Spawn ''ssh-agent'' [''-k''] None)"
  shows "emits P (terminate_agent x)"
  unfolding terminate_agent_def using assms by auto

lemma emits_startSshAgent:
  assumes "\<And>s as. P (Log s as)" and "\<And>n v. P (SetEnv n v)"
    and "P (Spawn ''ssh-agent'' [''-s''] None)"
    and "P (Spawn ''ssh-add'' [''-''] (Some k))"
  shows "emits P (startSshAgent x k)"
  unfolding startSshAgent_def using assms by (auto split: option.splits)

lemma emits_statSync: "emits P (statSync x d f)"
  unfolding statSync_def by (auto split: option.splits)

lemma emits_count_loop: "emits P (count_loop x d fs n)"
  by (induction fs arbitrary: n) (auto intro!: emits_statSync)

lemma emits_getFileCount: "emits P (getFileCount x d)"
  unfolding getFileCount_def readdirSync_recursive_def
  by (auto intro!: emits_count_loop split: option.splits node.splits)

lemma readdirSync_withFileTypes_result:
  "result (readdirSync_withFileTypes x d w) = Inr files \<Longrightarrow> stat x d = Some (Dir files)"
  by (auto simp: readdirSync_withFileTypes_def split: option.splits node.splits)

lemma emits_readdirSync_withFileTypes: "emits P (readdirSync_withFileTypes x d)"
  unfolding readdirSync_withFileTypes_def by (auto split: option.splits node.splits)

lemma emits_create_batch_file:
  assumes L: "\<And>s as. P (Log s as)"
    and W: "\<And>files. stat x (cfg_sourceDir c) = Some (Dir files) \<Longrightarrow>
          P (WriteFile (batch_file_path x)
               (batch_content (path_join x) (cfg_remoteDir c) (cfg_sourceDir c) files) None)"
  shows "emits P (create_batch_file x c)"
  unfolding create_batch_file_def
proof (intro emits_bind_result)
  fix files w
  assume "result (readdirSync_withFileTypes x (cfg_sourceDir c) w) = Inr files"
  then have "stat x (cfg_sourceDir c) = Some (Dir files)"
    by (rule readdirSync_withFileTypes_result)
  then show "emits P
     (writeFile x (batch_file_path x)
        (batch_content (path_join x) (cfg_remoteDir c) (cfg_sourceDir c) files) None)"
    by (intro emits_writeFile W)
qed (auto intro!: emits_getFileCount emits_readdirSync_withFileTypes L)

lemma emits_prepare_sftp:
  assumes "\<And>s as. P (Log s as)"
    and "P (WriteFile (identity_file_path x) (cfg_privateKey c) (Some mode_0600))"
  shows "emits P (prepare_sftp x c b)"
  unfolding prepare_sftp_def using assms by auto

lemma emits_deploy_prepare:
  assumes "\<And>s as. P (Log s as)" and "\<And>n v. P (SetEnv n v)"
    and "P (Spawn ''ssh-agent'' [''-s''] None)"
    and "P (Spawn ''ssh-add'' [''-''] (Some (cfg_privateKey c)))"
    and "\<And>files. stat x (cfg_sourceDir c) = Some (Dir files) \<Longrightarrow>
          P (WriteFile (batch_file_path x)
               (batch_content (path_join x) (cfg_remoteDir c) (cfg_sourceDir c) files) None)"
    and "P (WriteFile (identity_file_path x) (cfg_privateKey c) (Some mode_0600))"
  shows "emits P (deploy_prepare x c)"
  unfolding deploy_prepare_def using assms
  by (auto intro!: emits_startSshAgent emits_create_batch_file emits_prepare_sftp)

lemma emits_delete_identity:
  assumes "\<And>s as. P (Log s as)" and "P (Unlink i)"
  shows "emits P (delete_identity x i)"
  unfolding delete_identity_def using assms by auto

lemma emits_deploy_transfer:
  assumes "\<And>s as. P (Log s as)" and "P (Spawn cmd [] None)" and "P (Unlink i)"
  shows "emits P (deploy_transfer x i cmd)"
  unfolding deploy_transfer_def using assms by (auto intro!: emits_delete_identity)

lemma emits_deploy_cleanup:
  assumes "\<And>s as. P (Log s as)" and "P (Unlink b)" and "P (Spawn ''ssh-agent'' [''-k''] None)"
  shows "emits P (deploy_cleanup x b)"
  unfolding deploy_cleanup_def using assms by auto

lemma emits_deploy_failed:
  assumes "\<And>s as. P (Log s as)"
  shows "emits P (deploy_failed e)"
  unfolding deploy_failed_def using assms by auto

lemma emits_validate_inputs:
  assumes L: "\<And>s as. P (Log s as)"
    and S: "P (SetSecret (normalizeKey (input_value x ''private_key'')))"
  shows "emits P (validate_inputs x)"
  unfolding validate_inputs_def
proof (intro emits_bind_result)
  fix rawKey w
  assume "result (getInput x ''private_key'' True w) = Inr rawKey"
  then have "rawKey = input_value x ''private_key''"
    by (simp add: getInput_def split: if_splits)
  then show "emits P (core_setSecret (normalizeKey rawKey))"
    using S by (auto intro!: emits_core)
qed (auto intro!: L)

subsection \<open>The values of each step\<close>

lemma yields_D: "yields R f \<Longrightarrow> result (f w) = Inr a \<Longrightarrow> R a"
  by (simp add: yields_def)

lemma yields_ret: "R a \<Longrightarrow> yields R (ret a)"
  by (simp add: yields_def)

lemma yields_throw: "yields R (throw e)"
  by (simp add: yields_def)

lemma bind_InrE:
  assumes "bind f g w = (Inr b, w'', evs)"
  obtains a w' e1 e2 where "f w = (Inr a, w', e1)" "g a w' = (Inr b, w'', e2)" "evs = e1 @ e2"
proof -
  obtain r w' e1 where fw: "f w = (r, w', e1)" by (cases "f w")
  show ?thesis
  proof (cases r)
    case (Inl e)
    with fw assms show ?thesis by (simp add: bind_Inl)
  next
    case (Inr a)
    with fw assms have "g a w' = (Inr b, w'', events (g a w'))" "evs = e1 @ events (g a w')"
      by (cases "g a w'"; simp add: bind_apply)+
    with fw Inr that show ?thesis by blast
  qed
qed

lemma yields_bind_result:
  "yields Q f \<Longrightarrow> (\<And>a. Q a \<Longrightarrow> yields R (g a)) \<Longrightarrow> yields R (bind f g)"
  unfolding yields_def
proof (intro allI impI)
  fix w b
  assume f: "\<forall>w a. result (f w) = Inr a \<longrightarrow> Q a"
    and g: "\<And>a. Q a \<Longrightarrow> \<forall>w b. result (g a w) = Inr b \<longrightarrow> R b"
    and r: "result (bind f g w) = Inr b"
  obtain w'' evs where "bind f g w = (Inr b, w'', evs)"
    using r by (cases "bind f g w") simp
  then obtain a w' e1 e2 where fw: "f w = (Inr a, w', e1)" and gw: "g a w' = (Inr b, w'', e2)"
    by (rule bind_InrE)
  from fw f have "Q a" by (metis result_simp)
  from g [OF this] gw show "R b" by (metis result_simp)
qed

lemma yields_bind: "(\<And>a. yields R (g a)) \<Longrightarrow> yields R (bind f g)"
  by (rule yields_bind_result [where Q = "\<lambda>_. True"]) (simp_all add: yields_def)

lemma yields_bind_never: "yields (\<lambda>_. False) f \<Longrightarrow> yields R (bind f g)"
  by (rule yields_bind_result [where Q = "\<lambda>_. False"]) simp_all

lemma yields_try_catch:
  "yields R f \<Longrightarrow> (\<And>e. yields R (h e)) \<Longrightarrow> yields R (try_catch f h)"
  unfolding yields_def
proof (intro allI impI)
  fix w a
  assume f: "\<forall>w a. result (f w) = Inr a \<longrightarrow> R a"
    and h: "\<And>e. \<forall>w a. result (h e w) = Inr a \<longrightarrow> R a"
    and r: "result (try_catch f h w) = Inr a"
  obtain r1 w1 e1 where fw: "f w = (r1, w1, e1)" by (cases "f w")
  show "R a"
  proof (cases r1)
    case (Inl e)
    with fw r have "result (h e w1) = Inr a" by (simp add: try_catch_Inl)
    with h show ?thesis by blast
  next
    case (Inr b)
    with fw r have "result (f w) = Inr a" by (simp add: try_catch_Inr)
    with f show ?thesis by blast
  qed
qed

lemma yields_try_finally: "yields R f \<Longrightarrow> yields R (try_finally f fin)"
  unfolding yields_def
proof (intro allI impI)
  fix w a
  assume f: "\<forall>w a. result (f w) = Inr a \<longrightarrow> R a"
    and r: "result (try_finally f fin w) = Inr a"
  obtain r1 w1 e1 where fw: "f w = (r1, w1, e1)" by (cases "f w")
  obtain r2 w2 e2 where hw: "fin w1 = (r2, w2, e2)" by (cases "fin w1")
  from fw hw r have "result (f w) = Inr a"
    by (cases r2) (simp_all add: try_finally_def)
  with f show "R a" by blast
qed

lemma yields_getInput: "yields (\<lambda>v. v = input_value x n) (getInput x n req)"
  by (simp add: yields_def getInput_def)

lemma yields_bind_getInput:
  "(\<And>a. a = input_value x n \<Longrightarrow> yields R (g a)) \<Longrightarrow> yields R (bind (getInput x n req) g)"
  by (rule yields_bind_result [OF yields_getInput])

lemma create_batch_file_yields: "yields (\<lambda>b. b = batch_file_path x) (create_batch_file x c)"
  unfolding create_batch_file_def by (intro yields_bind yields_ret) simp

lemma prepare_sftp_yields:
  "yields (\<lambda>(i, cmd). i = identity_file_path x \<and> cmd = sftp_command (identity_file_path x) b c)
     (prepare_sftp x c b)"
  unfolding prepare_sftp_def by (intro yields_bind yields_ret) simp

lemma deploy_prepare_yields:
  "yields (\<lambda>(b, i, cmd). b = batch_file_path x \<and> i = identity_file_path x
              \<and> cmd = sftp_command (identity_file_path x) (batch_file_path x) c)
     (deploy_prepare x c)"
  unfolding deploy_prepare_def
  apply (rule yields_bind, rule yields_bind, rule yields_bind)
  apply (rule yields_bind_result [OF create_batch_file_yields])
  apply (rule yields_bind_result [OF prepare_sftp_yields])
  apply (auto intro!: yields_ret)
  done

lemma validate_inputs_yields: "yields (\<lambda>c. c = config_of x) (validate_inputs x)"
  unfolding validate_inputs_def
  by (intro yields_bind_getInput yields_bind yields_ret) (simp add: config_of_def)

subsection \<open>The events of \<open>deploy\<close>\<close>

text \<open>
  Where the quoting of a \<open>put\<close> line does what it is there for: the quoted text after
  \<open>put\<close> is the local path whenever the path holds no double quote.
\<close>

lemma first_quoted_put_directive:
  assumes "CHR 0x22 \<notin> set (join sourceDir name)"
  shows "first_quoted (put_directive join sourceDir name) = join sourceDir name"
proof -
  have t: "takeWhile (\<lambda>c. c \<noteq> CHR 0x22) (p @ CHR 0x22 # rest) = p"
    if "CHR 0x22 \<notin> set p" for p rest :: string
    using that by (induction p) auto
  show ?thesis
    by (simp add: first_quoted_def put_directive_def t [OF assms])
qed

lemma put_loop_acc:
  "put_loop join sourceDir files acc =
     acc @ concat (map (put_directive join sourceDir) (manifest files))"
  by (induction files arbitrary: acc) (auto simp: manifest_def put_directive_def isFile_def)

lemma batch_content_closed:
  "batch_content join remoteDir sourceDir files =
     ''-mkdir '' @ remoteDir @ ''\<newline>'' @ ''cd '' @ remoteDir @ ''\<newline>''
       @ concat (map (put_directive join sourceDir) (manifest files))"
  by (simp add: batch_content_def put_loop_acc)

text \<open>
  What follows the preparation causes only events that satisfy \<open>P\<close> when the events of
  the transfer and of the cleanup for the paths of this run do.
\<close>

lemma emits_deploy_run:
  assumes prep: "emits P (deploy_prepare x c)"
    and L: "\<And>s as. P (Log s as)"
    and "P (Spawn (sftp_command (identity_file_path x) (batch_file_path x) c) [] None)"
    and "P (Unlink (identity_file_path x))"
    and "P (Unlink (batch_file_path x))"
    and "P (Spawn ''ssh-agent'' [''-k''] None)"
  shows "emits P (deploy_run x c)"
  unfolding deploy_run_def
proof (rule emits_bind_result [OF prep])
  fix a w
  assume r: "result (deploy_prepare x c w) = Inr a"
  from yields_D [OF deploy_prepare_yields r] assms(2-)
  show "emits P
          (case a of (batchFilePath, identityFile, sftpCommand) \<Rightarrow>
             bind (deploy_transfer x identityFile sftpCommand) (\<lambda>_.
             bind (deploy_cleanup x batchFilePath) (\<lambda>_.
             bind (console_log [Str ''Deployment completed successfully!'']) (\<lambda>_.
             ret True))))"
    by (auto intro!: emits_deploy_transfer emits_deploy_cleanup)
qed

lemma emits_run_event: "emits (run_event x c) (deploy_run x c)"
  by (rule emits_deploy_run, rule emits_deploy_prepare) simp_all

lemma is_log_tools_event: "is_log ev \<Longrightarrow> tools_event ev"
  by (cases ev) auto

lemma emits_deploy: "emits (deploy_event x (config_of x)) (deploy x)"
proof -
  let ?D = "deploy_event x (config_of x)"
  have T: "emits ?D (checkAndInstallSshTools x)"
    by (rule emits_checkAndInstallSshTools) (simp_all add: deploy_event_def)
  have V: "emits ?D (validate_inputs x)"
    by (rule emits_validate_inputs) (simp_all add: deploy_event_def config_of_def)
  have R: "emits ?D (deploy_run x c)" if "result (validate_inputs x w) = Inr c" for c w
  proof -
    from that have "c = config_of x" by (rule yields_D [OF validate_inputs_yields])
    then show ?thesis
      using emits_mono [OF emits_run_event [of x c], of ?D] by (simp add: deploy_event_def)
  qed
  have F: "emits ?D (deploy_failed e)" for e
    by (rule emits_deploy_failed) (simp add: deploy_event_def)
  have L: "emits ?D (console_log as)" for as
    by (rule emits_log) (simp add: deploy_event_def)
  show ?thesis
    unfolding deploy_def
    by (rule emits_bind [OF L], rule emits_try_catch [OF _ F],
        rule emits_bind [OF T], rule emits_bind_result [OF V R])
qed

subsection \<open>States\<close>

lemma getExecOutput_apply:
  "getExecOutput x p cmd args inp ign w =
     (case p of
        SpawnFails msg \<Rightarrow> (Inl (Error msg), w, [Spawn cmd args inp])
      | Exits out e c \<Rightarrow>
          if c \<noteq> 0 \<and> \<not> ign then (Inl (Error (exit_message x cmd c)), w, [Spawn cmd args inp])
          else (Inr \<lparr>stdout = out, stderr = e, exitCode = c\<rparr>,
                if c = 0 then tool_effect cmd args inp w else w, [Spawn cmd args inp]))"
  by (simp add: getExecOutput_def bind_apply whenM_def split: proc.splits)

lemma log_apply [simp]:
  "console_log as w = (Inr (), w, [Log ConsoleLog as])"
  "console_warn as w = (Inr (), w, [Log ConsoleWarn as])"
  "console_error as w = (Inr (), w, [Log ConsoleError as])"
  "core_info s w = (Inr (), w, [Log CoreInfo [Str s]])"
  "core_warning s w = (Inr (), w, [Log CoreWarning [Str s]])"
  "core_error a w = (Inr (), w, [Log CoreError [a]])"
  "core_debug s w = (Inr (), w, [Log CoreDebug [Str s]])"
  "core_startGroup s w = (Inr (), w, [Log CoreStartGroup [Str s]])"
  "core_endGroup w = (Inr (), w, [Log CoreEndGroup []])"
  "core_info_parts as w = (Inr (), w, [Log CoreInfo as])"
  "core_setSecret s w = (Inr (), w, [SetSecret s])"
  "core_setOutput n v w = (Inr (), w, [SetOutput n v])"
  "core_setFailed s w = (Inr (), w, [SetFailed s])"
  by (simp_all add: console_log_def console_warn_def console_error_def core_info_def
      core_warning_def core_error_def core_debug_def core_startGroup_def core_endGroup_def
      core_info_parts_def core_setSecret_def core_setOutput_def core_setFailed_def)

lemma set_env_apply [simp]:
  "set_env n v w = (Inr (), w\<lparr>penv := (penv w)(n \<mapsto> v)\<rparr>, [SetEnv n v])"
  by (simp add: set_env_def bind_apply)

lemma startSshAgent_agent:
  "startSshAgent x k w = (Inr cl, w', evs) \<Longrightarrow> agent w' = Some [k] \<and> disk w' = disk w"
  by (auto simp: startSshAgent_def bind_apply try_catch_def try_finally_def whenM_def
      getExecOutput_apply tool_effect_def
      split: if_splits proc.splits option.splits sum.splits prod.splits)


subsection \<open>A failing transfer client\<close>

lemma delete_identity_result: "result (delete_identity x i w) = Inr ()"
  by (cases "unlink x i w" rule: prod_cases3; rename_tac r w' evs; case_tac r)
     (simp_all add: delete_identity_def try_catch_def bind_apply)

lemma deploy_transfer_fails:
  assumes "sftp x = Exits out e c" and "c \<noteq> 0"
  shows "result (deploy_transfer x i cmd w) = Inl (Error (exit_message x cmd c))"
proof -
  obtain w' evs where "delete_identity x i w = (Inr (), w', evs)"
    using delete_identity_result [of x i w] by (cases "delete_identity x i w") simp
  then show ?thesis
    using assms
    by (simp add: deploy_transfer_def bind_apply try_catch_def getExecOutput_apply)
qed

lemma client_failure_throw: "client_failure x c (throw e)"
  by (simp add: client_failure_def)

lemma client_failure_bind:
  assumes f: "emits no_client f" and g: "\<And>a. client_failure x c (g a)"
  shows "client_failure x c (bind f g)"
  unfolding client_failure_def
proof (intro allI conjI impI)
  fix w
  obtain r w' evs where fw: "f w = (r, w', evs)" by (cases "f w")
  have nc: "Spawn cmd [] None \<notin> set evs" for cmd
    using emits_D [OF f, of "Spawn cmd [] None" w] fw by auto
  show "\<exists>e. result (bind f g w) = Inl e"
  proof (cases r)
    case (Inl e)
    with fw show ?thesis by (simp add: bind_Inl)
  next
    case (Inr a)
    with fw g [of a] show ?thesis by (simp add: bind_Inr client_failure_def)
  qed
  fix cmd assume m: "Spawn cmd [] None \<in> set (events (bind f g w))"
  show "result (bind f g w) = Inl (Error (exit_message x cmd c))"
  proof (cases r)
    case (Inl e)
    with fw m nc show ?thesis by (simp add: bind_Inl)
  next
    case (Inr a)
    with fw m nc have "Spawn cmd [] None \<in> set (events (g a w'))" by (simp add: bind_Inr)
    with g [of a] Inr fw show ?thesis by (simp add: bind_Inr client_failure_def)
  qed
qed

lemma client_failure_deploy_failed:
  assumes f: "client_failure x c f"
  shows "client_failure x c (try_catch f deploy_failed)"
  unfolding client_failure_def
proof (intro allI conjI impI)
  fix w
  from f obtain e where r: "result (f w) = Inl e" by (auto simp: client_failure_def)
  then obtain w' evs where fw: "f w = (Inl e, w', evs)" by (cases "f w") simp
  have F: "deploy_failed e w' = (Inl e, w',
      [Log ConsoleError [Str ''Deployment failed with error:'', ErrObj e],
       Log ConsoleError [Str ''Error stack trace:'', Stack e]])"
    by (simp add: deploy_failed_def bind_apply)
  show "\<exists>e. result (try_catch f deploy_failed w) = Inl e"
    using fw F by (simp add: try_catch_Inl)
  fix cmd assume "Spawn cmd [] None \<in> set (events (try_catch f deploy_failed w))"
  then have "Spawn cmd [] None \<in> set (events (f w))"
    using fw F by (simp add: try_catch_Inl)
  with f have "result (f w) = Inl (Error (exit_message x cmd c))"
    by (simp add: client_failure_def)
  with fw F show "result (try_catch f deploy_failed w) = Inl (Error (exit_message x cmd c))"
    by (simp add: try_catch_Inl)
qed

lemma client_failure_transfer:
  assumes s: "sftp x = Exits out e c" "c \<noteq> 0"
  shows "client_failure x c (bind (deploy_transfer x i cmd) g)"
  unfolding client_failure_def
proof (intro allI conjI impI)
  fix w
  let ?E = "Error (exit_message x cmd c)"
  from deploy_transfer_fails [OF s] obtain w' evs where
    t: "deploy_transfer x i cmd w = (Inl ?E, w', evs)"
    by (cases "deploy_transfer x i cmd w") (metis result_simp)
  then show "\<exists>e. result (bind (deploy_transfer x i cmd) g w) = Inl e"
    by (simp add: bind_Inl)
  fix q assume "Spawn q [] None \<in> set (events (bind (deploy_transfer x i cmd) g w))"
  then have q: "Spawn q [] None \<in> set (events (deploy_transfer x i cmd w))"
    using t by (simp add: bind_Inl)
  have "emits (\<lambda>ev. \<forall>q. ev = Spawn q [] None \<longrightarrow> q = cmd) (deploy_transfer x i cmd)"
    by (rule emits_deploy_transfer) simp_all
  from emits_D [OF this q] have "q = cmd" by simp
  with t show "result (bind (deploy_transfer x i cmd) g w) = Inl (Error (exit_message x q c))"
    by (simp add: bind_Inl)
qed

lemma client_failure_deploy_run:
  assumes s: "sftp x = Exits out e c" "c \<noteq> 0"
  shows "client_failure x c (deploy_run x cfg)"
  unfolding deploy_run_def
proof (rule client_failure_bind)
  show "emits no_client (deploy_prepare x cfg)"
    by (rule emits_deploy_prepare) simp_all
  fix a :: "string \<times> string \<times> string"
  obtain b i cmd where a: "a = (b, i, cmd)" by (cases a)
  show "client_failure x c
          (case a of (batchFilePath, identityFile, sftpCommand) \<Rightarrow>
             bind (deploy_transfer x identityFile sftpCommand) (\<lambda>_.
             bind (deploy_cleanup x batchFilePath) (\<lambda>_.
             bind (console_log [Str ''Deployment completed successfully!'']) (\<lambda>_.
             ret True))))"
    unfolding a by (simp add: client_failure_transfer [OF s])
qed

lemma client_failure_deploy:
  assumes s: "sftp x = Exits out e c" "c \<noteq> 0"
  shows "client_failure x c (deploy x)"
  unfolding deploy_def
proof (intro client_failure_bind client_failure_deploy_failed client_failure_deploy_run [OF s])
  show "emits no_client (console_log [Str ''Starting deployment process...''])"
    by (rule emits_log) simp
  show "emits no_client (checkAndInstallSshTools x)"
    by (rule emits_checkAndInstallSshTools) simp_all
  show "emits no_client (validate_inputs x)"
    by (rule emits_validate_inputs) simp_all
qed

lemma deploy_sets_no_output: "filter is_output (events (deploy x w)) = []"
proof -
  have "\<not> is_output ev" if "ev \<in> set (events (deploy x w))" for ev
    using emits_D [OF emits_deploy that]
    by (cases ev) (auto simp: deploy_event_def)
  then show ?thesis by (simp add: filter_empty_conv)
qed


subsection \<open>The ES module variant\<close>

lemma quiet_simps [simp]:
  "quiet (Log s as)" "quiet (SetSecret k)" "quiet (SetEnv n v)" "quiet (Spawn c args i)"
  "quiet (WriteFile p d m)" "quiet (Unlink p)" "\<not> quiet (SetOutput n a)" "\<not> quiet (SetFailed msg)"
  by (simp_all add: quiet_def)

lemma emits_capture: "emits P (capture n s)"
  unfolding capture_def by (auto split: option.splits)

lemma emits_get_env: "emits P (get_env n)"
  by (simp add: emits_def get_env_def)

lemma emits_terminate_agent_esm: "emits quiet (terminate_agent_esm x)"
  unfolding terminate_agent_esm_def by auto

lemma emits_startSshAgent_esm: "emits quiet (startSshAgent_esm x k)"
  unfolding startSshAgent_esm_def by (auto intro!: emits_capture)

lemma yields_startSshAgent_esm:
  "yields (\<lambda>cl. cl = terminate_agent_esm x) (startSshAgent_esm x k)"
  unfolding startSshAgent_esm_def
  by (intro yields_bind yields_try_finally yields_try_catch yields_ret yields_throw) simp

lemma emits_count_loop_esm: "emits P (count_loop_esm x d fs n)"
  by (induction fs arbitrary: n) (auto intro!: emits_statSync)

lemma emits_getFileCount_esm: "emits P (getFileCount_esm x d)"
  unfolding getFileCount_esm_def readdirSync_recursive_def
  by (auto intro!: emits_count_loop_esm split: option.splits node.splits)

lemma emits_deploy_begin_esm: "emits quiet (deploy_begin_esm x)"
  unfolding deploy_begin_esm_def
  by (auto intro!: emits_getFileCount_esm emits_startSshAgent_esm)

lemma yields_deploy_begin_esm:
  "yields (\<lambda>(c, n, cl). cl = terminate_agent_esm x) (deploy_begin_esm x)"
  unfolding deploy_begin_esm_def
  by (intro yields_bind_result [OF yields_startSshAgent_esm] yields_bind yields_ret) simp

lemma emits_cleanup_agent_esm: "emits quiet (cleanup_agent_esm (terminate_agent_esm x))"
  unfolding cleanup_agent_esm_def by (auto intro!: emits_terminate_agent_esm)

lemma emits_run_listeners: "emits quiet (run_listeners cs)"
proof (induction cs rule: run_listeners.induct)
  case 1
  show ?case by (simp add: emits_def)
next
  case (2 d cs)
  then show ?case by (auto simp del: run_listeners.simps simp add: run_listeners.simps(2))
next
  case (3 d cs)
  then show ?case by (auto simp del: run_listeners.simps simp add: run_listeners.simps(3))
qed

lemma emits_exec_exec_listeners: "emits quiet (exec_exec_listeners x p cs cmd args)"
  unfolding exec_exec_listeners_def
  by (cases p) (auto intro!: emits_emit emits_run_listeners)

lemma emits_transfer_esm: "emits quiet (transfer_esm x c b)"
  unfolding transfer_esm_def by (auto intro!: emits_exec_exec_listeners)

lemma deploy_failed_esm_apply:
  "deploy_failed_esm e w =
     (Inr (), w, [Log CoreError [Str (cross_mark @ '' Deployment failed'')], SetFailed (message e)])"
  by (simp add: deploy_failed_esm_def bind_apply)

lemma cleanup_agent_esm_result: "result (cleanup_agent_esm cl w) = Inr ()"
  by (cases "cl w" rule: prod_cases3; rename_tac r w' evs; case_tac r)
     (simp_all add: cleanup_agent_esm_def try_catch_def bind_apply)

lemma try_finally_apply:
  "fin w' = (Inr (), w'', evs') \<Longrightarrow> f w = (r, w', evs) \<Longrightarrow>
     try_finally f fin w = (r, w'', evs @ evs')"
  by (simp add: try_finally_def)

lemma deploy_esm_begin_failed:
  assumes "deploy_begin_esm x w = (Inl e, w1, ev1)"
  shows "deploy_esm x w =
     (Inr (), w1, ev1 @ [Log CoreError [Str (cross_mark @ '' Deployment failed'')],
                         SetFailed (message e)])"
  using assms by (simp add: deploy_esm_def try_catch_def bind_apply deploy_failed_esm_apply)

lemma deploy_esm_rest_failed:
  assumes b: "deploy_begin_esm x w = (Inr (c, n, cl), w1, ev1)"
    and r: "deploy_rest_esm x c n w1 = (Inl e, w2, ev2)"
  shows "deploy_esm x w =
     (Inr (), final (cleanup_agent_esm cl w2),
      ev1 @ ev2 @ [Log CoreError [Str (cross_mark @ '' Deployment failed'')],
                    SetFailed (message e)] @ events (cleanup_agent_esm cl w2))"
proof -
  obtain w3 ev3 where cl: "cleanup_agent_esm cl w2 = (Inr (), w3, ev3)"
    using cleanup_agent_esm_result [of cl w2] by (cases "cleanup_agent_esm cl w2") simp
  have "try_catch (deploy_rest_esm x c n) deploy_failed_esm w1 =
      (Inr (), w2, ev2 @ [Log CoreError [Str (cross_mark @ '' Deployment failed'')],
                           SetFailed (message e)])"
    using r by (simp add: try_catch_Inl deploy_failed_esm_apply)
  then have "try_finally (try_catch (deploy_rest_esm x c n) deploy_failed_esm)
      (cleanup_agent_esm cl) w1 =
      (Inr (), w3, (ev2 @ [Log CoreError [Str (cross_mark @ '' Deployment failed'')],
                           SetFailed (message e)]) @ ev3)"
    using cl by (simp add: try_finally_def)
  then show ?thesis
    using b cl by (simp add: deploy_esm_def try_catch_Inr bind_Inr)
qed

lemma deploy_esm_succeeded:
  assumes b: "deploy_begin_esm x w = (Inr (c, n, cl), w1, ev1)"
    and r: "deploy_rest_esm x c n w1 = (Inr (), w2, ev2)"
  shows "deploy_esm x w =
     (Inr (), final (cleanup_agent_esm cl w2), ev1 @ ev2 @ events (cleanup_agent_esm cl w2))"
proof -
  obtain w3 ev3 where cl: "cleanup_agent_esm cl w2 = (Inr (), w3, ev3)"
    using cleanup_agent_esm_result [of cl w2] by (cases "cleanup_agent_esm cl w2") simp
  have "try_catch (deploy_rest_esm x c n) deploy_failed_esm w1 = (Inr (), w2, ev2)"
    using r by (simp add: try_catch_Inr)
  then have "try_finally (try_catch (deploy_rest_esm x c n) deploy_failed_esm)
      (cleanup_agent_esm cl) w1 = (Inr (), w3, ev2 @ ev3)"
    using cl by (simp add: try_finally_def)
  then show ?thesis
    using b cl by (simp add: deploy_esm_def try_catch_Inr bind_Inr)
qed

text \<open>The outputs of the rest of the \<open>try\<close> block: both when it ends well, none otherwise.\<close>

lemma outputs_bind:
  assumes f: "emits quiet f"
    and g: "\<And>a w. filter is_output (events (g a w)) =
              (case result (g a w) of Inl e \<Rightarrow> [] | Inr u \<Rightarrow> out)"
  shows "filter is_output (events (bind f g w)) =
           (case result (bind f g w) of Inl e \<Rightarrow> [] | Inr u \<Rightarrow> out)"
proof -
  obtain r w' evs where fw: "f w = (r, w', evs)" by (cases "f w")
  have "\<not> is_output ev" if "ev \<in> set evs" for ev
    using emits_D [OF f, of ev w] fw that by (simp add: quiet_def)
  then have q: "filter is_output evs = []" by (simp add: filter_empty_conv)
  show ?thesis
  proof (cases r)
    case (Inl e)
    with fw q show ?thesis by (simp add: bind_Inl)
  next
    case (Inr a)
    with fw q g [of a w'] show ?thesis by (simp add: bind_Inr)
  qed
qed

lemma deploy_rest_esm_outputs:
  "filter is_output (events (deploy_rest_esm x c n w)) =
     (case result (deploy_rest_esm x c n w) of
        Inl e \<Rightarrow> []
      | Inr u \<Rightarrow> [SetOutput ''deployed-files'' (Num n),
                  SetOutput ''deployment-time'' (Str (now_iso x))])"
  unfolding deploy_rest_esm_def
  apply (rule outputs_bind, (rule emits_log emits_get_env emits_writeFile emits_transfer_esm, simp?))+
  apply (simp add: bind_apply)
  done

lemma emits_deploy_rest_esm: "emits (\<lambda>ev. \<not> is_failed ev) (deploy_rest_esm x c n)"
  unfolding deploy_rest_esm_def
  by (auto intro!: emits_get_env emits_mono [OF emits_transfer_esm] simp: quiet_def)

lemma deploy_begin_esm_count:
  assumes "deploy_begin_esm x w = (Inr (c, n, cl), w1, ev1)"
  shows "Log CoreInfo [Str ''Found '', Num n, Str '' files to upload''] \<in> set ev1"
  using assms unfolding deploy_begin_esm_def
  by (auto elim!: bind_InrE)

lemma filter_quiet:
  assumes "emits quiet f"
  shows "filter is_output (events (f w)) = []" and "filter is_failed (events (f w)) = []"
proof -
  have "\<not> is_output ev \<and> \<not> is_failed ev" if "ev \<in> set (events (f w))" for ev
    using emits_D [OF assms that] by (simp add: quiet_def)
  then show "filter is_output (events (f w)) = []" and "filter is_failed (events (f w)) = []"
    by (simp_all add: filter_empty_conv)
qed

lemma filter_not_failed:
  assumes "emits (\<lambda>ev. \<not> is_failed ev) f"
  shows "filter is_failed (events (f w)) = []"
  using emits_D [OF assms] by (simp add: filter_empty_conv)

text \<open>
  The outputs of the ES module variant: a run that does not mark the action as failed
  sets \<open>deployed-files\<close> to the count it has reported and \<open>deployment-time\<close> to the
  time; a run that marks the action as failed sets no output.
\<close>

lemma deploy_esm_outputs:
  "(filter is_failed (events (deploy_esm x w)) = []
      \<and> (\<exists>n. filter is_output (events (deploy_esm x w)) =
                 [SetOutput ''deployed-files'' (Num n),
                  SetOutput ''deployment-time'' (Str (now_iso x))]
             \<and> Log CoreInfo [Str ''Found '', Num n, Str '' files to upload'']
                 \<in> set (events (deploy_esm x w))))
   \<or> (filter is_failed (events (deploy_esm x w)) \<noteq> []
      \<and> filter is_output (events (deploy_esm x w)) = [])"
proof -
  obtain r1 w1 ev1 where b: "deploy_begin_esm x w = (r1, w1, ev1)"
    by (cases "deploy_begin_esm x w")
  have q1: "filter is_output ev1 = []" "filter is_failed ev1 = []"
    using filter_quiet [OF emits_deploy_begin_esm, of x w] b by simp_all
  show ?thesis
  proof (cases r1)
    case (Inl e)
    with b q1 show ?thesis by (simp add: deploy_esm_begin_failed)
  next
    case (Inr a)
    obtain c n cl where a: "a = (c, n, cl)" by (cases a)
    have cl: "cl = terminate_agent_esm x"
      using yields_D [OF yields_deploy_begin_esm, of x w a] b Inr a by simp
    obtain r2 w2 ev2 where r: "deploy_rest_esm x c n w1 = (r2, w2, ev2)"
      by (cases "deploy_rest_esm x c n w1")
    have q3: "filter is_output (events (cleanup_agent_esm cl w2)) = []"
        "filter is_failed (events (cleanup_agent_esm cl w2)) = []"
      using filter_quiet [OF emits_cleanup_agent_esm, of x w2] cl by simp_all
    have f2: "filter is_failed ev2 = []"
      using filter_not_failed [OF emits_deploy_rest_esm, of x c n w1] r by simp
    have o2: "filter is_output ev2 =
       (case r2 of Inl e \<Rightarrow> []
        | Inr u \<Rightarrow> [SetOutput ''deployed-files'' (Num n),
                    SetOutput ''deployment-time'' (Str (now_iso x))])"
      using deploy_rest_esm_outputs [of x c n w1] r by simp
    have m: "Log CoreInfo [Str ''Found '', Num n, Str '' files to upload''] \<in> set ev1"
      using deploy_begin_esm_count b Inr a by simp
    show ?thesis
    proof (cases r2)
      case (Inl e)
      with b Inr a r q1 q3 f2 o2 show ?thesis by (simp add: deploy_esm_rest_failed)
    next
      case (Inr u)
      with b \<open>r1 = Inr a\<close> a r q1 q3 f2 o2 m show ?thesis
        by (auto simp: deploy_esm_succeeded)
    qed
  qed
qed

lemma exec_exec_listeners_fails:
  assumes "p = Exits out e c" and "c \<noteq> 0"
  shows "yields (\<lambda>_. False) (exec_exec_listeners x p cs cmd args)"
  unfolding exec_exec_listeners_def using assms
  by (auto intro!: yields_bind yields_throw)

lemma transfer_esm_fails:
  assumes "sftp x = Exits out e c" and "c \<noteq> 0"
  shows "yields (\<lambda>_. False) (transfer_esm x cfg b)"
  unfolding transfer_esm_def
  by (intro yields_try_finally yields_bind yields_bind_never exec_exec_listeners_fails [OF assms])

lemma deploy_rest_esm_fails:
  assumes "sftp x = Exits out e c" and "c \<noteq> 0"
  shows "yields (\<lambda>_. False) (deploy_rest_esm x cfg n)"
  unfolding deploy_rest_esm_def
  by (intro yields_bind yields_bind_never transfer_esm_fails [OF assms])

lemma deploy_esm_client_failure:
  assumes s: "sftp x = Exits out e c" "c \<noteq> 0"
  shows "filter is_failed (events (deploy_esm x w)) \<noteq> []
     \<and> filter is_output (events (deploy_esm x w)) = []"
proof -
  obtain r1 w1 ev1 where b: "deploy_begin_esm x w = (r1, w1, ev1)"
    by (cases "deploy_begin_esm x w")
  show ?thesis
  proof (cases r1)
    case (Inl err)
    with b deploy_esm_outputs [of x w] show ?thesis
      by (auto simp: deploy_esm_begin_failed)
  next
    case (Inr a)
    obtain cfg n cl where a: "a = (cfg, n, cl)" by (cases a)
    obtain r2 w2 ev2 where r: "deploy_rest_esm x cfg n w1 = (r2, w2, ev2)"
      by (cases "deploy_rest_esm x cfg n w1")
    from yields_D [OF deploy_rest_esm_fails [OF s], of cfg n w1] r
    obtain err where "r2 = Inl err" by (cases r2) auto
    with b Inr a r deploy_esm_outputs [of x w] show ?thesis
      by (auto simp: deploy_esm_rest_failed)
  qed
qed

lemma result_after:
  assumes f: "\<And>w. result (f w) = Inr ()" and g: "\<And>w. result (g w) = r"
  shows "result (bind f (\<lambda>_. g) w) = r"
proof -
  obtain w' evs where "f w = (Inr (), w', evs)"
    using f [of w] by (cases "f w") simp
  then show ?thesis using g [of w'] by (simp add: bind_Inr)
qed

lemma run_listeners_result: "result (run_listeners cs w) = Inr ()"
proof (induction cs arbitrary: w rule: run_listeners.induct)
  case 1
  show ?case by simp
next
  case (2 d cs)
  show ?case
    by (subst run_listeners.simps, rule result_after) (simp_all add: whenM_def 2)
next
  case (3 d cs)
  show ?case
    by (subst run_listeners.simps, rule result_after) (simp_all add: 3)
qed

lemma exec_exec_listeners_result:
  assumes "p = Exits out e c" and "c \<noteq> 0"
  shows "result (exec_exec_listeners x p cs cmd args w) = Inl (Error (exit_message x cmd c))"
proof -
  obtain w' evs where "run_listeners cs w = (Inr (), w', evs)"
    using run_listeners_result [of cs w] by (cases "run_listeners cs w") simp
  then show ?thesis
    using assms by (simp add: exec_exec_listeners_def bind_apply)
qed

lemma always_throws_bind:
  assumes "\<And>w. result (f w) = Inl e"
  shows "result (bind f g w) = Inl e"
proof -
  obtain w' evs where "f w = (Inl e, w', evs)"
    using assms [of w] by (cases "f w") simp
  then show ?thesis by (simp add: bind_Inl)
qed

lemma always_throws_finally:
  assumes f: "\<And>w. result (f w) = r" and g: "\<And>w. result (fin w) = Inr ()"
  shows "result (try_finally f fin w) = r"
proof -
  obtain w1 e1 where 1: "f w = (r, w1, e1)"
    using f [of w] by (cases "f w") simp
  obtain w2 e2 where "fin w1 = (Inr (), w2, e2)"
    using g [of w1] by (cases "fin w1") simp
  with 1 show ?thesis by (simp add: try_finally_def)
qed

lemma unlink_caught_result:
  "result (try_catch (bind (unlink x b) (\<lambda>_. core_info s)) (\<lambda>error. core_warning (t error)) w)
     = Inr ()"
  by (cases "unlink x b w" rule: prod_cases3; rename_tac r w' evs; case_tac r)
     (simp_all add: try_catch_def bind_apply)

lemma transfer_esm_result:
  assumes "sftp x = Exits out e c" and "c \<noteq> 0"
  shows "result (transfer_esm x cfg b w) = Inl (Error (exit_message x ''sftp'' c))"
  unfolding transfer_esm_def
proof (rule always_throws_finally)
  fix w
  show "result (bind (core_startGroup (outbox_tray @ '' Executing SFTP transfer'')) (\<lambda>_.
        bind (core_info ''Starting file transfer...'') (\<lambda>_.
        bind (exec_exec_listeners x (sftp x) (sftp_stream x) ''sftp''
               [''-P'', cfg_port cfg, ''-o'', ''StrictHostKeyChecking=no'', ''-b'', b,
                cfg_username cfg @ ''@'' @ cfg_host cfg]) (\<lambda>_.
        bind (core_info (check_mark @ '' SFTP transfer completed successfully'')) (\<lambda>_.
        core_endGroup)))) w) = Inl (Error (exit_message x ''sftp'' c))"
    by (intro result_after always_throws_bind exec_exec_listeners_result [OF assms]) simp_all
next
  fix w
  show "result (bind (core_startGroup (broom @ '' Cleanup'')) (\<lambda>_.
        bind (try_catch
               (bind (unlink x b) (\<lambda>_.
                core_info ''Batch file deleted''))
               (\<lambda>error. core_warning (''Failed to delete batch file: '' @ message error)))
          (\<lambda>_.
        core_endGroup)) w) = Inr ()"
    by (intro result_after unlink_caught_result) simp_all
qed

lemma sftp_failure_always:
  assumes "\<And>w. result (f w) = Inl (Error (exit_message x ''sftp'' c))"
  shows "sftp_failure x c (bind f g)"
proof -
  have "result (bind f g w) = Inl (Error (exit_message x ''sftp'' c))" for w
    by (rule always_throws_bind) (rule assms)
  then show ?thesis by (simp add: sftp_failure_def)
qed

lemma sftp_failure_bind:
  assumes f: "emits no_sftp f" and g: "\<And>a. sftp_failure x c (g a)"
  shows "sftp_failure x c (bind f g)"
  unfolding sftp_failure_def
proof (intro allI conjI impI)
  fix w
  obtain r w' evs where fw: "f w = (r, w', evs)" by (cases "f w")
  have nc: "no_sftp ev" if "ev \<in> set evs" for ev
    using emits_D [OF f, of ev w] fw that by simp
  show "\<exists>e. result (bind f g w) = Inl e"
  proof (cases r)
    case (Inl e)
    with fw show ?thesis by (simp add: bind_Inl)
  next
    case (Inr a)
    with fw g [of a] show ?thesis by (simp add: bind_Inr sftp_failure_def)
  qed
  assume m: "\<exists>ev \<in> set (events (bind f g w)). \<not> no_sftp ev"
  show "result (bind f g w) = Inl (Error (exit_message x ''sftp'' c))"
  proof (cases r)
    case (Inl e)
    with fw m nc show ?thesis by (auto simp: bind_Inl)
  next
    case (Inr a)
    with fw m nc have "\<exists>ev \<in> set (events (g a w')). \<not> no_sftp ev" by (auto simp: bind_Inr)
    with g [of a] Inr fw show ?thesis by (simp add: bind_Inr sftp_failure_def)
  qed
qed

lemma sftp_failure_deploy_rest_esm:
  assumes "sftp x = Exits out e c" and "c \<noteq> 0"
  shows "sftp_failure x c (deploy_rest_esm x cfg n)"
  unfolding deploy_rest_esm_def
  by (intro sftp_failure_bind sftp_failure_always transfer_esm_result [OF assms]
      emits_log emits_get_env emits_writeFile) simp_all

lemma emits_no_sftp_begin: "emits no_sftp (deploy_begin_esm x)"
  unfolding deploy_begin_esm_def startSshAgent_esm_def getFileCount_esm_def
    readdirSync_recursive_def
  by (auto intro!: emits_capture emits_count_loop_esm split: option.splits node.splits)

lemma emits_no_sftp_cleanup: "emits no_sftp (cleanup_agent_esm (terminate_agent_esm x))"
  unfolding cleanup_agent_esm_def terminate_agent_esm_def by auto

text \<open>
  When the sftp client exits with a status other than 0, the ES module variant marks
  the action as failed exactly once, with the message of the error that stopped it; when
  the client was called, this is the message of the error with which \<open>exec.exec\<close>
  rejects for the client and its exit status. No output is set.
\<close>

lemma deploy_esm_client_failure_message:
  assumes s: "sftp x = Exits out e c" "c \<noteq> 0"
  shows "\<exists>m. filter is_failed (events (deploy_esm x w)) = [SetFailed m]
           \<and> ((\<exists>args. Spawn ''sftp'' args None \<in> set (events (deploy_esm x w)))
                 \<longrightarrow> m = exit_message x ''sftp'' c)"
proof -
  obtain r1 w1 ev1 where b: "deploy_begin_esm x w = (r1, w1, ev1)"
    by (cases "deploy_begin_esm x w")
  have q1: "filter is_failed ev1 = []"
    using filter_quiet(2) [OF emits_deploy_begin_esm, of x w] b by simp
  have n1: "Spawn ''sftp'' args None \<notin> set ev1" for args
    using emits_D [OF emits_no_sftp_begin, of "Spawn ''sftp'' args None" x w] b by auto
  show ?thesis
  proof (cases r1)
    case (Inl err)
    with b q1 n1 show ?thesis
      by (simp add: deploy_esm_begin_failed)
  next
    case (Inr a)
    obtain cfg n cl where a: "a = (cfg, n, cl)" by (cases a)
    from yields_D [OF yields_deploy_begin_esm, of x w a] b Inr a
    have cl: "cl = terminate_agent_esm x" by simp
    obtain r2 w2 ev2 where r: "deploy_rest_esm x cfg n w1 = (r2, w2, ev2)"
      by (cases "deploy_rest_esm x cfg n w1")
    note f = sftp_failure_deploy_rest_esm [OF s, of cfg n, unfolded sftp_failure_def, rule_format, of w1]
    from f r obtain err where e: "r2 = Inl err" by auto
    have q2: "filter is_failed ev2 = []"
      using filter_not_failed [OF emits_deploy_rest_esm, of x cfg n w1] r by simp
    have q3: "filter is_failed (events (cleanup_agent_esm cl w2)) = []"
      unfolding cl by (rule filter_quiet(2) [OF emits_cleanup_agent_esm])
    have n3: "Spawn ''sftp'' args None \<notin> set (events (cleanup_agent_esm cl w2))" for args
      using emits_D [OF emits_no_sftp_cleanup, of "Spawn ''sftp'' args None" x w2] cl by auto
    have m: "err = Error (exit_message x ''sftp'' c)" if "Spawn ''sftp'' args None \<in> set ev2" for args
    proof -
      from that r have "\<exists>ev \<in> set (events (deploy_rest_esm x cfg n w1)). \<not> no_sftp ev"
        by (auto intro!: bexI [of _ "Spawn ''sftp'' args None"])
      with f r e show ?thesis by simp
    qed
    from b Inr a r e have ev: "events (deploy_esm x w) =
        ev1 @ ev2 @ [Log CoreError [Str (cross_mark @ '' Deployment failed'')],
                      SetFailed (message err)] @ events (cleanup_agent_esm cl w2)"
      by (simp add: deploy_esm_rest_failed)
    show ?thesis
      using q1 q2 q3 n1 n3 m by (auto simp: ev)
  qed
qed

text \<open>
  The ES module variant checks the source directory before it reads it and before it
  starts the agent: when the directory does not exist, no child process is started,
  the state is left as it was, and the action is marked as failed.
\<close>

lemma deploy_begin_esm_source_missing:
  assumes "stat x (or_default (input_value x ''source-dir'') ''./dist'') = None"
  shows "\<exists>err evs. deploy_begin_esm x w = (Inl err, w, evs) \<and> filter is_spawn evs = []
     \<and> (inputs x ''host'' \<noteq> [] \<and> inputs x ''username'' \<noteq> [] \<and> inputs x ''private-key'' \<noteq> []
          \<longrightarrow> err = Error (''Source directory '' @ or_default (input_value x ''source-dir'') ''./dist''
                              @ '' does not exist''))"
  using assms
  by (simp add: deploy_begin_esm_def bind_apply getInput_def existsSync_def whenM_def)

lemma deploy_esm_source_missing:
  assumes "stat x (or_default (input_value x ''source-dir'') ''./dist'') = None"
  shows "filter is_spawn (events (deploy_esm x w)) = [] \<and> final (deploy_esm x w) = w
     \<and> (inputs x ''host'' \<noteq> [] \<and> inputs x ''username'' \<noteq> [] \<and> inputs x ''private-key'' \<noteq> []
          \<longrightarrow> SetFailed (''Source directory '' @ or_default (input_value x ''source-dir'') ''./dist''
                              @ '' does not exist'') \<in> set (events (deploy_esm x w)))"
proof -
  from deploy_begin_esm_source_missing [OF assms, of w] obtain err evs where
    b: "deploy_begin_esm x w = (Inl err, w, evs)" and s: "filter is_spawn evs = []"
    and e: "inputs x ''host'' \<noteq> [] \<and> inputs x ''username'' \<noteq> [] \<and> inputs x ''private-key'' \<noteq> []
          \<longrightarrow> err = Error (''Source directory '' @ or_default (input_value x ''source-dir'') ''./dist''
                              @ '' does not exist'')"
    by blast
  from b s e show ?thesis by (auto simp: deploy_esm_begin_failed)
qed


subsection \<open>What a step leaves unchanged\<close>

lemma keeps_D: "keeps g f \<Longrightarrow> f w = (r, w', evs) \<Longrightarrow> g w' = g w"
  unfolding keeps_def by (metis final_simp)

lemma keeps_ret [intro!]: "keeps g (ret a)" by (simp add: keeps_def)
lemma keeps_throw [intro!]: "keeps g (throw e)" by (simp add: keeps_def)
lemma keeps_emit [intro!]: "keeps g (emit ev)" by (simp add: keeps_def)

lemma keeps_bind [intro!]:
  assumes f: "keeps g f" and h: "\<And>a. keeps g (h a)"
  shows "keeps g (bind f h)"
  unfolding keeps_def
proof
  fix w
  obtain r w' evs where fw: "f w = (r, w', evs)" by (cases "f w")
  from keeps_D [OF f fw] have 1: "g w' = g w" .
  show "g (final (bind f h w)) = g w"
  proof (cases r)
    case (Inl e)
    with fw 1 show ?thesis by (simp add: bind_Inl)
  next
    case (Inr a)
    with fw 1 h [of a] show ?thesis by (simp add: bind_Inr keeps_def)
  qed
qed

lemma keeps_try_catch [intro!]:
  assumes f: "keeps g f" and h: "\<And>e. keeps g (h e)"
  shows "keeps g (try_catch f h)"
  unfolding keeps_def
proof
  fix w
  obtain r w' evs where fw: "f w = (r, w', evs)" by (cases "f w")
  from keeps_D [OF f fw] have 1: "g w' = g w" .
  show "g (final (try_catch f h w)) = g w"
  proof (cases r)
    case (Inl e)
    with fw 1 h [of e] show ?thesis by (simp add: try_catch_Inl keeps_def)
  next
    case (Inr a)
    with fw 1 show ?thesis by (simp add: try_catch_Inr)
  qed
qed

lemma keeps_try_finally [intro!]:
  assumes f: "keeps g f" and h: "keeps g fin"
  shows "keeps g (try_finally f fin)"
  unfolding keeps_def
proof
  fix w
  obtain r w' evs where fw: "f w = (r, w', evs)" by (cases "f w")
  obtain r2 w2 evs2 where hw: "fin w' = (r2, w2, evs2)" by (cases "fin w'")
  from keeps_D [OF f fw] keeps_D [OF h hw] fw hw
  show "g (final (try_finally f fin w)) = g w"
    by (cases r2) (simp_all add: try_finally_def)
qed

lemma keeps_whenM [intro!]: "(b \<Longrightarrow> keeps g f) \<Longrightarrow> keeps g (whenM b f)"
  by (auto simp: whenM_def)

lemma keeps_if [intro!]:
  "(b \<Longrightarrow> keeps g f) \<Longrightarrow> (\<not> b \<Longrightarrow> keeps g h) \<Longrightarrow> keeps g (if b then f else h)"
  by simp

lemma keeps_log [intro!]:
  "keeps g (console_log as)" "keeps g (console_warn as)" "keeps g (console_error as)"
  "keeps g (core_info s)" "keeps g (core_warning s)" "keeps g (core_error a)"
  "keeps g (core_debug s)" "keeps g (core_startGroup s)" "keeps g core_endGroup"
  "keeps g (core_info_parts as)" "keeps g (core_setSecret s)" "keeps g (core_setOutput n v)"
  "keeps g (core_setFailed s)" "keeps g (getInput x n req)"
  by (simp_all add: keeps_def getInput_def)

lemma keeps_writeFile [intro!]:
  "keeps agent (writeFile x p c m)" "keeps penv (writeFile x p c m)"
  by (auto simp: keeps_def writeFile_def bind_apply split: option.splits)

lemma keeps_unlink [intro!]:
  "keeps agent (unlink x p)" "keeps penv (unlink x p)"
  by (auto simp: keeps_def unlink_def bind_apply split: option.splits)

lemma keeps_getExecOutput [intro!]:
  "keeps disk (getExecOutput x p cmd args inp ign)"
  "keeps penv (getExecOutput x p cmd args inp ign)"
  by (auto simp: keeps_def getExecOutput_apply tool_effect_def split: proc.splits option.splits)

lemma keeps_statSync [intro!]: "keeps g (statSync x d f)"
  by (auto simp: keeps_def statSync_def split: option.splits)

lemma keeps_count_loop [intro!]: "keeps g (count_loop x d fs n)"
  by (induction fs arbitrary: n) auto

lemma keeps_getFileCount [intro!]: "keeps g (getFileCount x d)"
  unfolding getFileCount_def readdirSync_recursive_def
  by (auto split: option.splits node.splits)

lemma keeps_readdirSync_withFileTypes [intro!]: "keeps g (readdirSync_withFileTypes x d)"
  unfolding readdirSync_withFileTypes_def by (auto split: option.splits node.splits)

lemma keeps_create_batch_file:
  "keeps agent (create_batch_file x c)" "keeps penv (create_batch_file x c)"
  unfolding create_batch_file_def by auto

lemma keeps_prepare_sftp:
  "keeps agent (prepare_sftp x c b)" "keeps penv (prepare_sftp x c b)"
  unfolding prepare_sftp_def by auto

text \<open>
  The identity file holds the key; it has the mode \<open>0o600\<close> when this run created it,
  and the mode it had when it was there already.
\<close>

lemma prepare_sftp_disk:
  assumes "prepare_sftp x c b w = (Inr (i, cmd), w', evs)"
  shows "disk w' (identity_file_path x)
      = Some (written (cfg_privateKey c) (Some mode_0600) (disk w (identity_file_path x)))"
  using assms
  by (auto simp: prepare_sftp_def bind_apply writeFile_def split: option.splits)

lemma written_simps [simp]:
  "written content mode None = (content, mode)"
  "written content mode (Some (c, m)) = (content, m)"
  "fst (written content mode old) = content"
  by (simp_all add: written_def split: option.splits)

lemma startSshAgent_penv:
  "startSshAgent x k w = (Inr cl, w', evs) \<Longrightarrow>
     penv w' ''SSH_AUTH_SOCK'' \<noteq> None \<and> penv w' ''SSH_AGENT_PID'' \<noteq> None"
  by (auto simp: startSshAgent_def bind_apply try_catch_def try_finally_def whenM_def
      getExecOutput_apply tool_effect_def
      split: if_splits proc.splits option.splits sum.splits prod.splits)

text \<open>
  In every run that reaches the transfer, both representations of the credential are
  there when the sftp client is called: the agent runs and holds the key, its socket is
  in the environment, the identity file holds the same key, and the command line names
  the identity file after \<open>-i\<close>.
\<close>

lemma deploy_prepare_credentials:
  assumes "deploy_prepare x c w = (Inr (batchFilePath, identityFile, sftpCommand), w', evs)"
  shows "agent w' = Some [cfg_privateKey c]
     \<and> map_option fst (disk w' identityFile) = Some (cfg_privateKey c)
     \<and> identityFile = identity_file_path x
     \<and> sftpCommand = sftp_command identityFile batchFilePath c
     \<and> penv w' ''SSH_AUTH_SOCK'' \<noteq> None"
proof -
  from assms obtain cl w1 w2 w3 w4 e1 e2 e3 e4 e5 where
    l1: "console_log [Str ''Starting SSH agent...''] w = (Inr (), w1, e1)"
    and a: "startSshAgent x (cfg_privateKey c) w1 = (Inr cl, w2, e2)"
    and l2: "console_log [Str ''SSH agent started successfully:'', Closure] w2 = (Inr (), w3, e3)"
    and b: "create_batch_file x c w3 = (Inr batchFilePath, w4, e4)"
    and p: "prepare_sftp x c batchFilePath w4 = (Inr (identityFile, sftpCommand), w', e5)"
    unfolding deploy_prepare_def
    by (elim bind_InrE) (auto split: prod.splits)
  from l1 l2 have w: "w1 = w" "w3 = w2" by simp_all
  from startSshAgent_agent [OF a] startSshAgent_penv [OF a]
  have 2: "agent w2 = Some [cfg_privateKey c]" "penv w2 ''SSH_AUTH_SOCK'' \<noteq> None" by simp_all
  from keeps_D [OF keeps_create_batch_file(1) b] keeps_D [OF keeps_create_batch_file(2) b]
  have 4: "agent w4 = agent w3" "penv w4 = penv w3" by simp_all
  from keeps_D [OF keeps_prepare_sftp(1) p] keeps_D [OF keeps_prepare_sftp(2) p]
  have 5: "agent w' = agent w4" "penv w' = penv w4" by simp_all
  from yields_D [OF prepare_sftp_yields, of x c batchFilePath w4 "(identityFile, sftpCommand)"] p
  have 6: "identityFile = identity_file_path x"
    "sftpCommand = sftp_command (identity_file_path x) batchFilePath c" by simp_all
  from prepare_sftp_disk [OF p] 2 4 5 6 w show ?thesis by auto
qed


subsection \<open>\<open>deployWithDependencies\<close> and \<open>deploy\<close>\<close>

text \<open>The inner functions and the steps of the injectable variant are those of \<open>deploy\<close>.\<close>

lemma checkAndInstallSshToolsWithDeps_eq:
  "checkAndInstallSshToolsWithDeps x = checkAndInstallSshTools x"
  by (simp only: checkAndInstallSshToolsWithDeps_def checkAndInstallSshTools_def)

lemma terminate_agent_deps_eq: "terminate_agent_deps x = terminate_agent x"
  by (simp only: terminate_agent_deps_def terminate_agent_def)

lemma startSshAgentWithDeps_eq: "startSshAgentWithDeps x k = startSshAgent x k"
  by (simp only: startSshAgentWithDeps_def startSshAgent_def terminate_agent_deps_eq)

lemma count_loop_deps_eq: "count_loop_deps x d fs n = count_loop x d fs n"
  by (induction fs arbitrary: n) simp_all

lemma getFileCountWithDeps_eq: "getFileCountWithDeps x d = getFileCount x d"
  by (simp only: getFileCountWithDeps_def getFileCount_def count_loop_deps_eq)

lemma create_batch_file_deps_eq: "create_batch_file_deps x c = create_batch_file x c"
  by (simp only: create_batch_file_deps_def create_batch_file_def getFileCountWithDeps_eq)

lemma prepare_sftp_deps_eq: "prepare_sftp_deps x c b = prepare_sftp x c b"
  by (simp only: prepare_sftp_deps_def prepare_sftp_def)

lemma delete_identity_deps_eq: "delete_identity_deps x i = delete_identity x i"
  by (simp only: delete_identity_deps_def delete_identity_def)

lemma deploy_transfer_deps_eq: "deploy_transfer_deps x i cmd = deploy_transfer x i cmd"
  by (simp only: deploy_transfer_deps_def deploy_transfer_def delete_identity_deps_eq)

lemma deploy_cleanup_deps_eq: "deploy_cleanup_deps x b = deploy_cleanup x b"
  by (simp only: deploy_cleanup_deps_def deploy_cleanup_def)

lemma deploy_prepare_deps_eq: "deploy_prepare_deps x c = deploy_prepare x c"
  by (simp only: deploy_prepare_deps_def deploy_prepare_def startSshAgentWithDeps_eq
        create_batch_file_deps_eq prepare_sftp_deps_eq)

lemma deploy_run_deps_eq: "deploy_run_deps x c = deploy_run x c"
  by (simp only: deploy_run_deps_def deploy_run_def deploy_prepare_deps_eq
        deploy_transfer_deps_eq deploy_cleanup_deps_eq)

lemma deploy_failed_deps_eq: "deploy_failed_deps = deploy_failed"
  by (rule ext) (simp only: deploy_failed_deps_def deploy_failed_def)

lemma deploy_failed_apply:
  "deploy_failed e w = (Inl e, w,
      [Log ConsoleError [Str ''Deployment failed with error:'', ErrObj e],
       Log ConsoleError [Str ''Error stack trace:'', Stack e]])"
  by (simp add: deploy_failed_def bind_apply)


lemma validate_inputs_deps_apply:
  "validate_inputs_deps c w = (Inr (), w,
      [Log ConsoleLog [Str ''Validating input parameters...''],
       SetSecret (cfg_privateKey c),
       Log ConsoleLog (config_summary (replicate 16 CHR '' '') c)])"
  by (simp add: validate_inputs_deps_def bind_apply)


lemma param_apply:
  "param (Some v) d w = (Inr v, w, [])"
  "inputs x n \<noteq> [] \<Longrightarrow> param None (getInput x n True) w = (Inr (input_value x n), w, [])"
  "param None (bind (getInput x n False) (\<lambda>p. ret (or_default p dflt))) w
     = (Inr (or_default (input_value x n) dflt), w, [])"
  by (simp_all add: param_def getInput_def bind_apply)

lemma deployWithDependencies_assemble:
  assumes v: "valid_inputs x" and a: "as_inputs x p key"
  shows "deployWithDependencies x p w =
     assemble (Log ConsoleLog [Str ''Starting deployment process with injected dependencies...''])
       (events (validate_inputs_deps (config_with x key) w)) (checkAndInstallSshTools x w)
       (deploy_run x (config_with x key))"
proof -
  obtain r1 w1 e1 where t: "checkAndInstallSshTools x w = (r1, w1, e1)"
    by (cases "checkAndInstallSshTools x w")
  obtain r2 w2 e2 where r: "deploy_run x (config_with x key) w1 = (r2, w2, e2)"
    by (cases "deploy_run x (config_with x key) w1")
  have h: "param (param_host p) (getInput x ''host'' True) w = (Inr (input_value x ''host''), w, [])"
    and u: "param (param_username p) (getInput x ''username'' True) w
              = (Inr (input_value x ''username''), w, [])"
    and po: "param (param_port p) (bind (getInput x ''port'' False) (\<lambda>p. ret (or_default p ''22''))) w
              = (Inr (or_default (input_value x ''port'') ''22''), w, [])"
    and s: "param (param_sourceDir p) (getInput x ''source_dir'' True) w
              = (Inr (input_value x ''source_dir''), w, [])"
    and rd: "param (param_remoteDir p) (getInput x ''remote_dir'' True) w
              = (Inr (input_value x ''remote_dir''), w, [])"
    and k: "param (param_privateKey p) (getInput x ''private_key'' True) w = (Inr key, w, [])"
    using v a by (auto simp: valid_inputs_def as_inputs_def param_apply)
  have c: "\<lparr>cfg_host = input_value x ''host'', cfg_username = input_value x ''username'',
            cfg_port = or_default (input_value x ''port'') ''22'',
            cfg_sourceDir = input_value x ''source_dir'', cfg_remoteDir = input_value x ''remote_dir'',
            cfg_privateKey = key\<rparr> = config_with x key"
    by (simp add: config_with_def config_of_def)
  have "deployWithDependencies x p w =
      bind (console_log [Str ''Starting deployment process with injected dependencies...''])
        (\<lambda>_. try_catch
           (bind (checkAndInstallSshTools x) (\<lambda>_.
            bind (validate_inputs_deps (config_with x key)) (\<lambda>_.
            deploy_run x (config_with x key))))
           deploy_failed) w"
    by (simp add: deployWithDependencies_def h u po s rd k c bind_apply [of "param _ _"]
        checkAndInstallSshToolsWithDeps_eq deploy_run_deps_eq deploy_failed_deps_eq)
  also have "\<dots> = assemble
       (Log ConsoleLog [Str ''Starting deployment process with injected dependencies...''])
       (events (validate_inputs_deps (config_with x key) w)) (checkAndInstallSshTools x w)
       (deploy_run x (config_with x key))"
    by (cases r1; cases r2)
       (simp_all add: assemble_def bind_apply try_catch_def t r validate_inputs_deps_apply
          deploy_failed_apply)
  finally show ?thesis .
qed


lemma assemble_events:
  assumes "ev \<in> set (events (assemble first validation tools rest))"
  shows "is_log ev \<or> ev = first \<or> ev \<in> set validation \<or> ev \<in> set (events tools)
     \<or> (\<exists>w1. ev \<in> set (events (rest w1)))"
proof -
  obtain r1 w1 e1 where t: "tools = (r1, w1, e1)" by (cases tools)
  obtain r2 w2 e2 where r: "rest w1 = (r2, w2, e2)" by (cases "rest w1")
  have e2: "\<exists>w1. ev \<in> set (events (rest w1))" if "ev \<in> set e2"
    using that r by (metis events_simp)
  show ?thesis
    using assms e2
    by (cases r1; cases r2) (auto simp: assemble_def t r deploy_failed_apply)
qed

text \<open>Every secret text in the events of the run of a configuration is its key.\<close>

lemma deploy_run_payload:
  "emits (\<lambda>ev. \<forall>s. payload ev = Some s \<longrightarrow> s = cfg_privateKey c) (deploy_run x c)"
  by (rule emits_deploy_run, rule emits_deploy_prepare) simp_all

lemma checkAndInstallSshTools_payload:
  "emits (\<lambda>ev. payload ev = None) (checkAndInstallSshTools x)"
  by (rule emits_checkAndInstallSshTools) simp_all

lemma is_log_payload: "is_log ev \<Longrightarrow> payload ev = None"
  by (cases ev) simp_all

lemma deployWithDependencies_payload:
  assumes v: "valid_inputs x" and a: "as_inputs x p key"
    and m: "ev \<in> set (events (deployWithDependencies x p w))" and s: "payload ev = Some s"
  shows "s = key"
proof -
  let ?c = "config_with x key"
  from m have "ev \<in> set (events (assemble
       (Log ConsoleLog [Str ''Starting deployment process with injected dependencies...''])
       (events (validate_inputs_deps ?c w)) (checkAndInstallSshTools x w) (deploy_run x ?c)))"
    by (simp add: deployWithDependencies_assemble [OF v a])
  from assemble_events [OF this]
  consider (log) "is_log ev"
    | (validation) "ev \<in> set (events (validate_inputs_deps ?c w))"
    | (tools) "ev \<in> set (events (checkAndInstallSshTools x w))"
    | (rest) w1 where "ev \<in> set (events (deploy_run x ?c w1))"
    by auto
  then show ?thesis
  proof cases
    case log
    with s show ?thesis by (simp add: is_log_payload)
  next
    case validation
    with s show ?thesis by (auto simp: validate_inputs_deps_apply config_with_def)
  next
    case tools
    from emits_D [OF checkAndInstallSshTools_payload this] s show ?thesis by simp
  next
    case rest
    from emits_D [OF deploy_run_payload this] s show ?thesis by (simp add: config_with_def)
  qed
qed








subsection \<open>Events before the registration of the secret\<close>

lemma list_all_takeWhile: "list_all P xs \<Longrightarrow> list_all P (takeWhile p xs)"
  by (induction xs) auto

lemma clean_until_emits: "emits P f \<Longrightarrow> clean_until s P f"
  by (simp add: clean_until_def emits_def list_all_takeWhile)

lemma clean_until_D:
  assumes "clean_until s P f" and "f w = (r, w', evs)"
  shows "list_all P (takeWhile (\<lambda>ev. ev \<noteq> s) evs)"
  using assms unfolding clean_until_def by (metis events_simp)

lemma takeWhile_until_append:
  "takeWhile (\<lambda>ev. ev \<noteq> s) (xs @ ys) =
     (if s \<in> set xs then takeWhile (\<lambda>ev. ev \<noteq> s) xs else xs @ takeWhile (\<lambda>ev. ev \<noteq> s) ys)"
  by (induction xs) auto

lemma clean_until_append:
  assumes "list_all P (takeWhile (\<lambda>ev. ev \<noteq> s) xs)"
    and "list_all P (takeWhile (\<lambda>ev. ev \<noteq> s) ys)"
  shows "list_all P (takeWhile (\<lambda>ev. ev \<noteq> s) (xs @ ys))"
proof (cases "s \<in> set xs")
  case True
  with assms show ?thesis by (simp add: takeWhile_until_append)
next
  case False
  then have "takeWhile (\<lambda>ev. ev \<noteq> s) xs = xs" by (auto simp: takeWhile_eq_all_conv)
  with assms False show ?thesis by (simp add: takeWhile_until_append)
qed

lemma clean_until_bind:
  assumes f: "clean_until s P f" and g: "\<And>a. clean_until s P (g a)"
  shows "clean_until s P (bind f g)"
  unfolding clean_until_def
proof
  fix w
  obtain r w' evs where fw: "f w = (r, w', evs)" by (cases "f w")
  note 1 = clean_until_D [OF f fw]
  show "list_all P (takeWhile (\<lambda>ev. ev \<noteq> s) (events (bind f g w)))"
  proof (cases r)
    case (Inl e)
    with fw 1 show ?thesis by (simp add: bind_Inl)
  next
    case (Inr a)
    obtain r2 w2 evs2 where gw: "g a w' = (r2, w2, evs2)" by (cases "g a w'")
    from clean_until_append [OF 1 clean_until_D [OF g gw]] Inr fw gw
    show ?thesis by (simp add: bind_Inr)
  qed
qed

lemma clean_until_bind_result:
  assumes f: "clean_until s P f" and g: "\<And>a w. result (f w) = Inr a \<Longrightarrow> clean_until s P (g a)"
  shows "clean_until s P (bind f g)"
  unfolding clean_until_def
proof
  fix w
  obtain r w' evs where fw: "f w = (r, w', evs)" by (cases "f w")
  note 1 = clean_until_D [OF f fw]
  show "list_all P (takeWhile (\<lambda>ev. ev \<noteq> s) (events (bind f g w)))"
  proof (cases r)
    case (Inl e)
    with fw 1 show ?thesis by (simp add: bind_Inl)
  next
    case (Inr a)
    obtain r2 w2 evs2 where gw: "g a w' = (r2, w2, evs2)" by (cases "g a w'")
    have "result (f w) = Inr a" using fw Inr by simp
    from clean_until_append [OF 1 clean_until_D [OF g [OF this] gw]] Inr fw gw
    show ?thesis by (simp add: bind_Inr)
  qed
qed

lemma clean_until_registered:
  assumes f: "clean_until s P f" and r: "registers s f"
  shows "clean_until s P (bind f g)"
  unfolding clean_until_def
proof
  fix w
  obtain r1 w' evs where fw: "f w = (r1, w', evs)" by (cases "f w")
  note 1 = clean_until_D [OF f fw]
  show "list_all P (takeWhile (\<lambda>ev. ev \<noteq> s) (events (bind f g w)))"
  proof (cases r1)
    case (Inl e)
    with fw 1 show ?thesis by (simp add: bind_Inl)
  next
    case (Inr a)
    with fw r have "s \<in> set evs" unfolding registers_def by (metis result_simp events_simp)
    then have "takeWhile (\<lambda>ev. ev \<noteq> s) (evs @ ys) = takeWhile (\<lambda>ev. ev \<noteq> s) evs" for ys
      by (simp add: takeWhile_until_append)
    with Inr fw 1 show ?thesis by (simp add: bind_Inr)
  qed
qed

lemma clean_until_secret: "clean_until s P (bind (emit s) g)"
  by (simp add: clean_until_def bind_apply split: prod.splits)

lemma clean_until_try_catch:
  assumes f: "clean_until s P f" and h: "\<And>e. clean_until s P (h e)"
  shows "clean_until s P (try_catch f h)"
  unfolding clean_until_def
proof
  fix w
  obtain r w' evs where fw: "f w = (r, w', evs)" by (cases "f w")
  note 1 = clean_until_D [OF f fw]
  show "list_all P (takeWhile (\<lambda>ev. ev \<noteq> s) (events (try_catch f h w)))"
  proof (cases r)
    case (Inr a)
    with fw 1 show ?thesis by (simp add: try_catch_Inr)
  next
    case (Inl e)
    obtain r2 w2 evs2 where hw: "h e w' = (r2, w2, evs2)" by (cases "h e w'")
    from clean_until_append [OF 1 clean_until_D [OF h hw]] Inl fw hw
    show ?thesis by (simp add: try_catch_Inl)
  qed
qed

lemma registers_bind_right: "(\<And>a. registers s (g a)) \<Longrightarrow> registers s (bind f g)"
  unfolding registers_def
proof (intro allI impI)
  fix w b
  assume g: "\<And>a. \<forall>w b. result (g a w) = Inr b \<longrightarrow> s \<in> set (events (g a w))"
    and r: "result (bind f g w) = Inr b"
  obtain w'' evs where "bind f g w = (Inr b, w'', evs)"
    using r by (cases "bind f g w") simp
  then obtain a w' e1 e2 where fw: "f w = (Inr a, w', e1)" and gw: "g a w' = (Inr b, w'', e2)"
      and e: "evs = e1 @ e2" and bw: "bind f g w = (Inr b, w'', evs)"
    by (auto elim: bind_InrE)
  from g [of a] gw have "s \<in> set e2" by (metis result_simp events_simp)
  with e bw show "s \<in> set (events (bind f g w))" by simp
qed

lemma registers_emit: "registers s (bind (emit s) g)"
  unfolding registers_def
  by (auto simp: bind_apply split: prod.splits)

text \<open>Messages with fixed texts are not derived from a text that ends in a newline.\<close>

lemma not_derived_literal:
  assumes "last k = CHR ''\<newline>''" and "k \<noteq> []" and "t \<noteq> []" and "last t \<noteq> CHR ''\<newline>''"
  shows "\<not> derived_from k (Log s [Str t])"
  using assms by auto

lemma checkAndInstallSshTools_not_derived:
  assumes "endsWith k ''\<newline>''"
  shows "emits (\<lambda>ev. \<not> derived_from k ev) (checkAndInstallSshTools x)"
proof -
  from assms have k: "k \<noteq> []" "last k = CHR ''\<newline>''" by (simp_all add: endsWith_newline_iff)
  have l: "\<not> derived_from k (Log s [Str t])" if "t \<noteq> []" "last t \<noteq> CHR ''\<newline>''" for s t
    using k that by auto
  show ?thesis
    unfolding checkAndInstallSshTools_def
    by (intro emits_bind emits_try_finally emits_try_catch emits_whenM emits_if emits_log l
        emits_getExecOutput emits_exec_exec emits_ret emits_throw)
       (simp_all add: wrench_def)
qed


lemma registers_bind_result:
  "(\<And>a w. result (f w) = Inr a \<Longrightarrow> registers s (g a)) \<Longrightarrow> registers s (bind f g)"
  unfolding registers_def
proof (intro allI impI)
  fix w b
  assume g: "\<And>a w. result (f w) = Inr a \<Longrightarrow> \<forall>w b. result (g a w) = Inr b \<longrightarrow> s \<in> set (events (g a w))"
    and r: "result (bind f g w) = Inr b"
  obtain w'' evs where "bind f g w = (Inr b, w'', evs)"
    using r by (cases "bind f g w") simp
  then obtain a w' e1 e2 where fw: "f w = (Inr a, w', e1)" and gw: "g a w' = (Inr b, w'', e2)"
      and e: "evs = e1 @ e2" and bw: "bind f g w = (Inr b, w'', evs)"
    by (auto elim: bind_InrE)
  from fw have "result (f w) = Inr a" by simp
  from g [OF this] gw have "s \<in> set e2" by (metis result_simp events_simp)
  with e bw show "s \<in> set (events (bind f g w))" by simp
qed

lemma getInput_result: "result (getInput x n req w) = Inr a \<Longrightarrow> a = input_value x n"
  by (simp add: getInput_def split: if_splits)

lemma validate_inputs_registers:
  "registers (SetSecret (normalizeKey (input_value x ''private_key''))) (validate_inputs x)"
  unfolding validate_inputs_def core_setSecret_def
  apply (rule registers_bind_right [where f = "console_log [Str ''Validating input parameters...'']"])
  apply (rule registers_bind_right [where f = "getInput x ''host'' True"])
  apply (rule registers_bind_right [where f = "getInput x ''username'' True"])
  apply (rule registers_bind_right [where f = "getInput x ''port'' False"])
  apply (rule registers_bind_right [where f = "getInput x ''source_dir'' True"])
  apply (rule registers_bind_right [where f = "getInput x ''remote_dir'' True"])
  apply (rule registers_bind_result [where f = "getInput x ''private_key'' True"])
  apply (drule getInput_result)
  apply (rule registers_bind_right)
  apply (simp add: registers_emit)
  done

lemma validate_inputs_clean_until:
  assumes "endsWith (normalizeKey (input_value x ''private_key'')) ''\<newline>''"
  shows "clean_until (SetSecret (normalizeKey (input_value x ''private_key'')))
           (\<lambda>ev. \<not> derived_from (normalizeKey (input_value x ''private_key'')) ev)
           (validate_inputs x)"
proof -
  let ?k = "normalizeKey (input_value x ''private_key'')"
  from assms have k: "?k \<noteq> []" "last ?k = CHR ''\<newline>''" by (simp_all add: endsWith_newline_iff)
  have l: "\<not> derived_from ?k (Log s [Str t])" if "t \<noteq> []" "last t \<noteq> CHR ''\<newline>''" for s t
    using k that by auto
  have e: "clean_until (SetSecret ?k) (\<lambda>ev. \<not> derived_from ?k ev) (console_log [Str t])"
    if "t \<noteq> []" "last t \<noteq> CHR ''\<newline>''" for t
    by (rule clean_until_emits, rule emits_log, rule l) (rule that)+
  have g: "clean_until (SetSecret ?k) (\<lambda>ev. \<not> derived_from ?k ev) (getInput x n req)" for n req
    by (rule clean_until_emits) (rule emits_getInput)
  show ?thesis
    unfolding validate_inputs_def core_setSecret_def
    apply (rule clean_until_bind [OF e], simp, simp)
    apply (rule clean_until_bind [OF g])
    apply (rule clean_until_bind [OF g])
    apply (rule clean_until_bind [OF g])
    apply (rule clean_until_bind [OF g])
    apply (rule clean_until_bind [OF g])
    apply (rule clean_until_bind_result [OF g])
    apply (drule getInput_result)
    apply (rule clean_until_bind)
     apply (rule clean_until_emits, rule emits_whenM, rule emits_log, rule l, simp, simp)
    apply (simp add: clean_until_secret)
    done
qed

lemma deploy_failed_not_derived:
  assumes "endsWith k ''\<newline>''"
  shows "emits (\<lambda>ev. \<not> derived_from k ev) (deploy_failed e)"
proof -
  from assms have k: "k \<noteq> []" "last k = CHR ''\<newline>''" by (simp_all add: endsWith_newline_iff)
  show ?thesis
    unfolding deploy_failed_def using k by (auto intro!: emits_log)
qed

lemma deploy_clean_until:
  "clean_until (SetSecret (normalizeKey (input_value x ''private_key'')))
     (\<lambda>ev. \<not> derived_from (normalizeKey (input_value x ''private_key'')) ev) (deploy x)"
proof -
  let ?k = "normalizeKey (input_value x ''private_key'')"
  have n: "endsWith ?k ''\<newline>''"
    by (simp add: normalizeKey_def endsWith_append_self)
  then have k: "?k \<noteq> []" "last ?k = CHR ''\<newline>''" by (simp_all add: endsWith_newline_iff)
  have 1: "clean_until (SetSecret ?k) (\<lambda>ev. \<not> derived_from ?k ev)
      (console_log [Str ''Starting deployment process...''])"
    using k by (intro clean_until_emits emits_log) auto
  show ?thesis
    unfolding deploy_def
    by (intro clean_until_bind [OF 1] clean_until_try_catch
        clean_until_bind [OF clean_until_emits [OF checkAndInstallSshTools_not_derived [OF n]]]
        clean_until_registered [OF validate_inputs_clean_until [OF n] validate_inputs_registers]
        clean_until_emits [OF deploy_failed_not_derived [OF n]])
qed

lemma key_registered_before_use:
  assumes "events (deploy x w) = pre @ ev # post"
    and "derived_from (normalizeKey (input_value x ''private_key'')) ev"
  shows "SetSecret (normalizeKey (input_value x ''private_key'')) \<in> set pre"
proof (rule ccontr)
  let ?k = "normalizeKey (input_value x ''private_key'')"
  assume n: "SetSecret ?k \<notin> set pre"
  from assms(2) have "ev \<noteq> SetSecret ?k" by auto
  with n have "takeWhile (\<lambda>ev. ev \<noteq> SetSecret ?k) (pre @ ev # post)
      = pre @ ev # takeWhile (\<lambda>ev. ev \<noteq> SetSecret ?k) post"
    by (simp add: takeWhile_until_append)
  moreover have "list_all (\<lambda>ev. \<not> derived_from ?k ev)
      (takeWhile (\<lambda>ev. ev \<noteq> SetSecret ?k) (events (deploy x w)))"
    using deploy_clean_until [of x] unfolding clean_until_def by (rule spec)
  ultimately have "\<not> derived_from ?k ev"
    by (simp add: assms(1))
  with assms(2) show False by simp
qed

subsection \<open>Runs that differ in the private key only\<close>

lemma alike_D:
  assumes "alike k Q f g" and "dom (disk w1) = dom (disk w2)"
    and "f w1 = (r1, v1, e1)" and "g w2 = (r2, v2, e2)"
  shows "rel_sum (=) Q r1 r2" and "e2 = map (set_payload k) e1" and "dom (disk v1) = dom (disk v2)"
proof -
  from assms(1,2) have
    "rel_sum (=) Q (result (f w1)) (result (g w2))
      \<and> events (g w2) = map (set_payload k) (events (f w1))
      \<and> dom (disk (final (f w1))) = dom (disk (final (g w2)))"
    unfolding alike_def by blast
  with assms(3,4) show "rel_sum (=) Q r1 r2" and "e2 = map (set_payload k) e1"
    and "dom (disk v1) = dom (disk v2)"
    by simp_all
qed

lemma alike_I:
  assumes "\<And>w1 w2 r1 v1 e1 r2 v2 e2.
      dom (disk w1) = dom (disk w2) \<Longrightarrow> f w1 = (r1, v1, e1) \<Longrightarrow> g w2 = (r2, v2, e2) \<Longrightarrow>
      rel_sum (=) Q r1 r2 \<and> e2 = map (set_payload k) e1 \<and> dom (disk v1) = dom (disk v2)"
  shows "alike k Q f g"
  unfolding alike_def
proof (intro allI impI)
  fix w1 w2 :: world
  assume d: "dom (disk w1) = dom (disk w2)"
  obtain r1 v1 e1 where 1: "f w1 = (r1, v1, e1)" by (cases "f w1")
  obtain r2 v2 e2 where 2: "g w2 = (r2, v2, e2)" by (cases "g w2")
  from assms [OF d 1 2] 1 2
  show "rel_sum (=) Q (result (f w1)) (result (g w2))
      \<and> events (g w2) = map (set_payload k) (events (f w1))
      \<and> dom (disk (final (f w1))) = dom (disk (final (g w2)))"
    by simp
qed

lemma alike_ret: "Q a b \<Longrightarrow> alike k Q (ret a) (ret b)"
  by (simp add: alike_def)

lemma alike_throw: "alike k Q (throw e) (throw e)"
  by (simp add: alike_def)

lemma set_payload_none [simp]: "payload ev = None \<Longrightarrow> set_payload k ev = ev"
  by (cases ev rule: payload.cases) simp_all

lemma alike_emit: "alike k (=) (emit a) (emit (set_payload k a))"
  by (simp add: alike_def)


lemma alike_log: "alike k (=) (emit (Log s as)) (emit (Log s as))"
  by (simp add: alike_def)

lemma alike_modify:
  assumes "\<And>w1 w2. dom (disk w1) = dom (disk w2) \<Longrightarrow> dom (disk (f w1)) = dom (disk (g w2))"
  shows "alike k (=) (modify f) (modify g)"
  using assms by (simp add: alike_def)

lemma alike_bind:
  assumes f: "alike k R f f'" and g: "\<And>a b. R a b \<Longrightarrow> alike k Q (g a) (g' b)"
  shows "alike k Q (bind f g) (bind f' g')"
proof (rule alike_I)
  fix w1 w2 r1 v1 e1 r2 v2 e2
  assume d: "dom (disk w1) = dom (disk w2)"
    and 1: "bind f g w1 = (r1, v1, e1)" and 2: "bind f' g' w2 = (r2, v2, e2)"
  obtain s1 u1 c1 where f1: "f w1 = (s1, u1, c1)" by (cases "f w1")
  obtain s2 u2 c2 where f2: "f' w2 = (s2, u2, c2)" by (cases "f' w2")
  note h = alike_D [OF f d f1 f2]
  show "rel_sum (=) Q r1 r2 \<and> e2 = map (set_payload k) e1 \<and> dom (disk v1) = dom (disk v2)"
  proof (cases s1)
    case (Inl e)
    with h(1) have "s2 = Inl e" by (cases s2) simp_all
    with Inl f1 f2 1 2 h show ?thesis by (auto simp: bind_apply)
  next
    case (Inr a)
    with h(1) obtain b where s2: "s2 = Inr b" and R: "R a b" by (cases s2) simp_all
    obtain t1 x1 d1 where g1: "g a u1 = (t1, x1, d1)" by (cases "g a u1")
    obtain t2 x2 d2 where g2: "g' b u2 = (t2, x2, d2)" by (cases "g' b u2")
    note k = alike_D [OF g [OF R] h(3) g1 g2]
    from Inr s2 f1 f2 g1 g2 1 2 have "r1 = t1" "r2 = t2" "e1 = c1 @ d1" "e2 = c2 @ d2"
      "v1 = x1" "v2 = x2"
      by (auto simp: bind_apply)
    with k h(2) show ?thesis by simp
  qed
qed

lemma alike_bind_eq:
  assumes "alike k (=) f f'" and "\<And>a. alike k Q (g a) (g' a)"
  shows "alike k Q (bind f g) (bind f' g')"
  by (rule alike_bind [OF assms(1)]) (simp add: assms(2))



lemma alike_whenM: "alike k (=) f f' \<Longrightarrow> alike k (=) (whenM b f) (whenM b f')"
  by (simp add: whenM_def alike_ret)

lemma alike_if:
  "(b \<Longrightarrow> alike k Q f f') \<Longrightarrow> (\<not> b \<Longrightarrow> alike k Q g g') \<Longrightarrow>
     alike k Q (if b then f else g) (if b then f' else g')"
  by simp

lemma alike_console_log: "alike k (=) (console_log as) (console_log as)"
  and alike_console_warn: "alike k (=) (console_warn as) (console_warn as)"
  and alike_console_error: "alike k (=) (console_error as) (console_error as)"
  and alike_core_info: "alike k (=) (core_info s) (core_info s)"
  and alike_core_warning: "alike k (=) (core_warning s) (core_warning s)"
  and alike_core_error: "alike k (=) (core_error a) (core_error a)"
  and alike_core_startGroup: "alike k (=) (core_startGroup s) (core_startGroup s)"
  and alike_core_endGroup: "alike k (=) core_endGroup core_endGroup"
  by (simp_all add: console_log_def console_warn_def console_error_def core_info_def
      core_warning_def core_error_def core_startGroup_def core_endGroup_def alike_log)

lemmas alike_logs = alike_console_log alike_console_warn alike_console_error alike_core_info
  alike_core_warning alike_core_error alike_core_startGroup alike_core_endGroup


lemma tool_effect_disk: "disk (tool_effect cmd args inp w) = disk w"
  by (simp add: tool_effect_def split: option.splits)

text \<open>A child process ends in the same way whatever it reads from its standard input.\<close>

lemma alike_tool_effect:
  "alike k (=) (modify (tool_effect cmd args i1)) (modify (tool_effect cmd args i2))"
  by (rule alike_modify) (simp add: tool_effect_disk)

lemma alike_getExecOutput_input:
  assumes "Spawn cmd args i2 = set_payload k (Spawn cmd args i1)"
  shows "alike k (=) (getExecOutput x p cmd args i1 ign) (getExecOutput x p cmd args i2 ign)"
proof -
  have s: "alike k (=) (emit (Spawn cmd args i1)) (emit (Spawn cmd args i2))"
    unfolding assms by (rule alike_emit)
  show ?thesis
  proof (cases p)
    case (SpawnFails msg)
    show ?thesis
      unfolding getExecOutput_def SpawnFails proc.case
      by (intro alike_bind_eq s alike_throw)
  next
    case (Exits out e c)
    show ?thesis
      unfolding getExecOutput_def Exits proc.case
      by (intro alike_bind_eq s alike_if alike_throw alike_whenM alike_tool_effect alike_ret)
        simp
  qed
qed

lemma alike_getExecOutput:
  "alike k (=) (getExecOutput x p cmd args None ign) (getExecOutput x p cmd args None ign)"
  by (rule alike_getExecOutput_input) simp


lemma alike_exec_exec: "alike k (=) (exec_exec x p cmd args) (exec_exec x p cmd args)"
  unfolding exec_exec_def
  by (intro alike_bind_eq alike_getExecOutput alike_ret) simp












lemma alike_terminate_agent: "alike k (=) (terminate_agent x) (terminate_agent x)"
  unfolding terminate_agent_def
  by (intro alike_bind_eq alike_logs alike_exec_exec alike_ret) simp












text \<open>Only the validation of the inputs reads the input \<open>private_key\<close>.\<close>

lemma with_key_simps [simp]:
  "platform (with_key x k) = platform x"
  "tmpdir (with_key x k) = tmpdir x"
  "path_join (with_key x k) = path_join x"
  "fs_lookup (with_key x k) = fs_lookup x"
  "write_error (with_key x k) = write_error x"
  "unlink_error (with_key x k) = unlink_error x"
  "which_first (with_key x k) = which_first x"
  "apt_update (with_key x k) = apt_update x"
  "apt_install (with_key x k) = apt_install x"
  "which_verify (with_key x k) = which_verify x"
  "agent_start (with_key x k) = agent_start x"
  "ssh_add (with_key x k) = ssh_add x"
  "sftp (with_key x k) = sftp x"
  "agent_kill (with_key x k) = agent_kill x"
  "exit_message (with_key x k) = exit_message x"
  "inputs (with_key x k) ''private_key'' = k"
  "n \<noteq> ''private_key'' \<Longrightarrow> inputs (with_key x k) n = inputs x n"
  by (simp_all add: with_key_def)



























subsection \<open>\<open>deployWithDependencies\<close> with a key of its own\<close>

lemma is_log_set_payload [simp]: "is_log (set_payload k ev) = is_log ev"
  by (cases ev rule: payload.cases) simp_all






lemma map_set_payload_same:
  "list_all (\<lambda>ev. \<forall>s. payload ev = Some s \<longrightarrow> s = k) evs \<Longrightarrow> map (set_payload k) evs = evs"
proof (induction evs)
  case Nil
  show ?case by simp
next
  case (Cons ev evs)
  then show ?case by (cases ev rule: payload.cases) simp_all
qed


section \<open>Claims\<close>

text \<open>
  C5. A key that does not end in a newline is normalised to the key followed by one
  newline; a key that already ends in a newline is left as it is; normalising twice is
  normalising once; and the normalised key ends in a newline that is preceded by
  exactly the raw key when one was added, so an existing terminator is never doubled.
\<close>

theorem normalizeKey_spec:
  "(\<not> endsWith rawKey ''\<newline>'' \<longrightarrow> normalizeKey rawKey = rawKey @ ''\<newline>'')
   \<and> (endsWith rawKey ''\<newline>'' \<longrightarrow> normalizeKey rawKey = rawKey)
   \<and> normalizeKey (normalizeKey rawKey) = normalizeKey rawKey
   \<and> endsWith (normalizeKey rawKey) ''\<newline>''
   \<and> (endsWith rawKey ''\<newline>'' \<longrightarrow> length (normalizeKey rawKey) = length rawKey)"
  using endsWith_append_self [of rawKey "''\<newline>''"]
  by (simp add: normalizeKey_def)

theorem normalizeKey_spec_witness:
  "\<not> endsWith ''KEY'' ''\<newline>'' \<and> normalizeKey ''KEY'' = ''KEY\<newline>''
   \<and> endsWith ''KEY\<newline>'' ''\<newline>'' \<and> normalizeKey ''KEY\<newline>'' = ''KEY\<newline>''"
  using normalizeKey_spec [of "''KEY''"] normalizeKey_spec [of "''KEY\<newline>''"]
  by (simp add: endsWith_def)

text \<open>
  C3 (evaluation of the code where the claim fails). The script has the three kinds of
  lines that the claim names, but the quoting of a \<open>put\<close> line is only a pair of double
  quotes around the text, and nothing in a file name is escaped. For the one regular
  file named \<open>x" y\<close> the line is \<open>put "dist/x" y" "x" y"\<close>: the quoted text that
  starts after \<open>put\<close> ends at the quote of the name, it is \<open>dist/x\<close> and not the local
  path, and the blank of the name stands outside of it. For the one regular file whose
  name is \<open>a\<close>, a newline, \<open>b\<close>, the directive is spread over three lines of the script.
\<close>

theorem put_directive_quoting_breaks:
  "WriteFile ''/tmp/sftp_batch''
     (''-mkdir /var/www/html\<newline>cd /var/www/html\<newline>''
        @ ''put '' @ [CHR 0x22] @ ''dist/x'' @ [CHR 0x22] @ '' y'' @ [CHR 0x22] @ '' ''
        @ [CHR 0x22] @ ''x'' @ [CHR 0x22] @ '' y'' @ [CHR 0x22] @ ''\<newline>'')
     None
     \<in> set (events (deploy (example_ext ''KEY'' (Some (Dir [((''x'' @ [CHR 0x22] @ '' y''), File)])) transferred)
                clean_world))
   \<and> manifest [((''x'' @ [CHR 0x22] @ '' y''), File)] = [(''x'' @ [CHR 0x22] @ '' y'')]
   \<and> first_quoted (put_directive (\<lambda>a b. a @ ''/'' @ b) ''dist'' (''x'' @ [CHR 0x22] @ '' y'')) = ''dist/x''
   \<and> WriteFile ''/tmp/sftp_batch''
       (''-mkdir /var/www/html\<newline>cd /var/www/html\<newline>''
          @ ''put '' @ [CHR 0x22] @ ''dist/a\<newline>b'' @ [CHR 0x22] @ '' '' @ [CHR 0x22] @ ''a\<newline>b'' @ [CHR 0x22] @ ''\<newline>'')
       None
     \<in> set (events (deploy (example_ext ''KEY'' (Some (Dir [((''a'' @ [CHR 0x0A] @ ''b''), File)])) transferred)
                clean_world))
   \<and> manifest [((''a'' @ [CHR 0x0A] @ ''b''), File)] = [(''a'' @ [CHR 0x0A] @ ''b'')]
   \<and> script_lines
         (batch_content (\<lambda>a b. a @ ''/'' @ b) ''/var/www/html'' ''dist'' [((''a'' @ [CHR 0x0A] @ ''b''), File)])
       = [''-mkdir /var/www/html'', ''cd /var/www/html'',
          ''put '' @ [CHR 0x22] @ ''dist/a'', ''b'' @ [CHR 0x22] @ '' '' @ [CHR 0x22] @ ''a'', ''b'' @ [CHR 0x22]]"
  by code_simp

text \<open>
  C4 (evaluation of the code where the claim fails). The source directory holds
  \<open>a.txt\<close> and a directory \<open>sub\<close> with \<open>sub/b.txt\<close>. The manifest has the one entry
  \<open>a.txt\<close> and the batch script has the one \<open>put\<close> line for it, but \<open>deploy\<close> reports
  \<open>Found 2 files to transfer\<close>: \<open>getFileCount\<close> lists the directory recursively.
\<close>

theorem file_count_includes_nested_files:
  "Log ConsoleLog [Str ''Found '', Num 2, Str '' files to transfer in source directory'']
     \<in> set (events (deploy (example_ext ''KEY'' (Some nested) transferred) clean_world))
   \<and> WriteFile ''/tmp/sftp_batch''
       (''-mkdir /var/www/html\<newline>cd /var/www/html\<newline>''
        @ ''put '' @ [CHR 0x22] @ ''dist/a.txt'' @ [CHR 0x22] @ '' '' @ [CHR 0x22] @ ''a.txt'' @ [CHR 0x22] @ ''\<newline>'')
       None
     \<in> set (events (deploy (example_ext ''KEY'' (Some nested) transferred) clean_world))
   \<and> manifest [(''a.txt'', File), (''sub'', Dir [(''b.txt'', File)])] = [''a.txt'']"
  by code_simp

text \<open>
  C1 (evaluation of the code where the claim fails). The sftp client exits with status
  1 after the agent was started and both files were written. \<open>deploy\<close> returns the
  error to its caller; the identity file has been deleted, but the batch file is still
  on disk and the agent still runs and holds the key: neither the deletion of the batch
  file nor \<open>ssh-agent -k\<close> was attempted.
\<close>

theorem sftp_failure_skips_cleanup:
  "result (deploy (example_ext ''KEY'' (Some two_files) refused) clean_world)
     = Inl (Error (''The process '' @ [CHR 0x27] @ ''/usr/bin/sftp'' @ [CHR 0x27] @ '' failed with exit code 1''))
   \<and> disk (final (deploy (example_ext ''KEY'' (Some two_files) refused) clean_world))
       ''/tmp/deploy_identity'' = None
   \<and> disk (final (deploy (example_ext ''KEY'' (Some two_files) refused) clean_world))
       ''/tmp/sftp_batch'' \<noteq> None
   \<and> agent (final (deploy (example_ext ''KEY'' (Some two_files) refused) clean_world))
       = Some [''KEY\<newline>'']
   \<and> filter (\<lambda>ev. ev = Unlink ''/tmp/sftp_batch'' \<or> ev = Spawn ''ssh-agent'' [''-k''] None)
       (events (deploy (example_ext ''KEY'' (Some two_files) refused) clean_world)) = []"
  by code_simp

text \<open>
  C6 (evaluation of the code where the claim fails). The source directory does not
  exist. \<open>deploy\<close> has no check of its own: it runs \<open>which\<close>, starts the agent and
  gives it the key, and fails only when \<open>getFileCount\<close> reads the directory; it
  returns with the agent still running.
\<close>

theorem missing_source_found_after_agent_start:
  "result (deploy (example_ext ''KEY'' None transferred) clean_world)
     = Inl (Error (''ENOENT: no such file or directory, scandir '' @ [CHR 0x27] @ ''dist'' @ [CHR 0x27]))
   \<and> filter is_spawn (events (deploy (example_ext ''KEY'' None transferred) clean_world))
       = [Spawn ''which'' [''ssh-add''] None, Spawn ''ssh-agent'' [''-s''] None,
          Spawn ''ssh-add'' [''-''] (Some ''KEY\<newline>'')]
   \<and> agent (final (deploy (example_ext ''KEY'' None transferred) clean_world))
       = Some [''KEY\<newline>'']"
  by code_simp

text \<open>
  C9 (evaluation of the code where the claim fails). The transfer succeeds and
  \<open>deploy\<close> returns \<open>true\<close>, but it sets no output: neither \<open>deployed-files\<close> nor
  \<open>deployment-time\<close>.
\<close>

theorem successful_deploy_sets_no_output:
  "result (deploy (example_ext ''KEY'' (Some two_files) transferred) clean_world) = Inr True
   \<and> filter is_output (events (deploy (example_ext ''KEY'' (Some two_files) transferred) clean_world)) = []"
  by code_simp

text \<open>
  C2. When the sftp client exits with a status other than 0, whatever it wrote to its
  standard output and standard error, \<open>deploy\<close> ends with a thrown error; if the
  client was called at all, the error is the one with which \<open>exec.getExecOutput\<close>
  rejects for the client's command line and exit status; and no output is set. The ES
  module variant marks the action as failed exactly once, with the message of the error
  that stopped it, which is the message of the error of \<open>exec.exec\<close> for \<open>sftp\<close> and
  its exit status if the client was called at all; and it sets no output.
\<close>

theorem client_exit_status_fails_deployment:
  assumes "sftp x = Exits out e code" and "code \<noteq> 0"
  shows "(\<exists>err. result (deploy x w) = Inl err)
     \<and> (\<forall>cmd. Spawn cmd [] None \<in> set (events (deploy x w)) \<longrightarrow>
            result (deploy x w) = Inl (Error (exit_message x cmd code)))
     \<and> filter is_output (events (deploy x w)) = []
     \<and> (\<exists>m. filter is_failed (events (deploy_esm x w)) = [SetFailed m]
            \<and> ((\<exists>args. Spawn ''sftp'' args None \<in> set (events (deploy_esm x w)))
                  \<longrightarrow> m = exit_message x ''sftp'' code))
     \<and> filter is_output (events (deploy_esm x w)) = []"
  using client_failure_deploy [OF assms] deploy_sets_no_output [of x w]
    deploy_esm_client_failure [OF assms, of w] deploy_esm_client_failure_message [OF assms, of w]
  by (simp add: client_failure_def)

theorem client_exit_status_fails_deployment_witness:
  "sftp (example_ext ''KEY'' (Some two_files) refused) = Exits [] ''Connection refused'' 1
   \<and> (1::nat) \<noteq> 0
   \<and> Spawn (''sftp -v -o StrictHostKeyChecking=no -o UserKnownHostsFile=/dev/null''
              @ '' -i /tmp/deploy_identity -b /tmp/sftp_batch -P 22 u@h'') [] None
       \<in> set (events (deploy (example_ext ''KEY'' (Some two_files) refused) clean_world))
   \<and> result (deploy (example_ext ''KEY'' (Some two_files) refused) clean_world)
       = Inl (Error (''The process '' @ [CHR 0x27] @ ''/usr/bin/sftp'' @ [CHR 0x27] @ '' failed with exit code 1''))
   \<and> Spawn ''sftp'' [''-P'', ''22'', ''-o'', ''StrictHostKeyChecking=no'', ''-b'',
                       ''/tmp/sftp_batch'', ''u@h''] None
       \<in> set (events (deploy_esm (example_ext ''KEY'' (Some two_files) refused) clean_world))
   \<and> filter is_failed
         (events (deploy_esm (example_ext ''KEY'' (Some two_files) refused) clean_world))
       = [SetFailed (''The process '' @ [CHR 0x27] @ ''/usr/bin/sftp'' @ [CHR 0x27] @ '' failed with exit code 1'')]"
proof -
  let ?x = "example_ext ''KEY'' (Some two_files) refused"
  have s: "sftp ?x = Exits [] ''Connection refused'' 1"
    by (simp add: example_ext_def refused_def)
  have m: "Spawn (''sftp -v -o StrictHostKeyChecking=no -o UserKnownHostsFile=/dev/null''
              @ '' -i /tmp/deploy_identity -b /tmp/sftp_batch -P 22 u@h'') [] None
       \<in> set (events (deploy ?x clean_world))"
    by code_simp
  have n: "Spawn ''sftp'' [''-P'', ''22'', ''-o'', ''StrictHostKeyChecking=no'', ''-b'',
                       ''/tmp/sftp_batch'', ''u@h''] None
       \<in> set (events (deploy_esm ?x clean_world))"
    by code_simp
  have e: "exit_message ?x
             (''sftp -v -o StrictHostKeyChecking=no -o UserKnownHostsFile=/dev/null''
              @ '' -i /tmp/deploy_identity -b /tmp/sftp_batch -P 22 u@h'') 1
           = ''The process '' @ [CHR 0x27] @ ''/usr/bin/sftp'' @ [CHR 0x27] @ '' failed with exit code 1''"
    "exit_message ?x ''sftp'' 1
           = ''The process '' @ [CHR 0x27] @ ''/usr/bin/sftp'' @ [CHR 0x27] @ '' failed with exit code 1''"
    by code_simp+
  note t = client_exit_status_fails_deployment [OF s, of clean_world]
  from t m e have r: "result (deploy ?x clean_world) = Inl (Error (''The process '' @ [CHR 0x27] @ ''/usr/bin/sftp'' @ [CHR 0x27] @ '' failed with exit code 1''))"
    by auto
  from t n e have f: "filter is_failed (events (deploy_esm ?x clean_world))
       = [SetFailed (''The process '' @ [CHR 0x27] @ ''/usr/bin/sftp'' @ [CHR 0x27] @ '' failed with exit code 1'')]"
    by auto
  from s m n r f show ?thesis by simp
qed

text \<open>
  C7 (evaluation of the code where the claim fails). In the example run \<open>deploy\<close> has,
  before it calls the sftp client, started the agent and given it the key, set the
  socket of the agent in the environment, and written the same key to the identity
  file; nothing of this is undone before the call. When the preparation is complete the
  agent holds the key, the identity file holds the key with mode \<open>0o600\<close>, and the
  command line names the identity file after \<open>-i\<close>: two representations of the
  credential are active in one run, not exactly one.
\<close>

theorem agent_and_identity_file_both_active:
  "takeWhile (\<lambda>ev. ev \<noteq> Spawn (''sftp -v -o StrictHostKeyChecking=no -o UserKnownHostsFile=/dev/null''
              @ '' -i /tmp/deploy_identity -b /tmp/sftp_batch -P 22 u@h'') [] None)
      (effects (events (deploy (example_ext ''KEY'' (Some two_files) transferred) clean_world)))
     = [Spawn ''which'' [''ssh-add''] None, SetSecret ''KEY\<newline>'',
        Spawn ''ssh-agent'' [''-s''] None, SetEnv ''SSH_AUTH_SOCK'' ''/tmp/agent.1'',
        SetEnv ''SSH_AGENT_PID'' ''12'', Spawn ''ssh-add'' [''-''] (Some ''KEY\<newline>''),
        WriteFile ''/tmp/sftp_batch''
          (''-mkdir /var/www/html\<newline>cd /var/www/html\<newline>''
           @ ''put '' @ [CHR 0x22] @ ''dist/a.txt'' @ [CHR 0x22] @ '' '' @ [CHR 0x22] @ ''a.txt'' @ [CHR 0x22] @ ''\<newline>''
           @ ''put '' @ [CHR 0x22] @ ''dist/b.txt'' @ [CHR 0x22] @ '' '' @ [CHR 0x22] @ ''b.txt'' @ [CHR 0x22] @ ''\<newline>'')
          None,
        WriteFile ''/tmp/deploy_identity'' ''KEY\<newline>'' (Some mode_0600)]
   \<and> Spawn (''sftp -v -o StrictHostKeyChecking=no -o UserKnownHostsFile=/dev/null''
              @ '' -i /tmp/deploy_identity -b /tmp/sftp_batch -P 22 u@h'') [] None
       \<in> set (events (deploy (example_ext ''KEY'' (Some two_files) transferred) clean_world))
   \<and> result (deploy_prepare (example_ext ''KEY'' (Some two_files) transferred)
         (config_of (example_ext ''KEY'' (Some two_files) transferred)) clean_world)
       = Inr (''/tmp/sftp_batch'', ''/tmp/deploy_identity'',
              ''sftp -v -o StrictHostKeyChecking=no -o UserKnownHostsFile=/dev/null''
              @ '' -i /tmp/deploy_identity -b /tmp/sftp_batch -P 22 u@h'')
   \<and> agent_holds (final (deploy_prepare (example_ext ''KEY'' (Some two_files) transferred)
         (config_of (example_ext ''KEY'' (Some two_files) transferred)) clean_world)) ''KEY\<newline>''
   \<and> penv (final (deploy_prepare (example_ext ''KEY'' (Some two_files) transferred)
         (config_of (example_ext ''KEY'' (Some two_files) transferred)) clean_world)) ''SSH_AUTH_SOCK''
       = Some ''/tmp/agent.1''
   \<and> identity_file_holds (final (deploy_prepare (example_ext ''KEY'' (Some two_files) transferred)
         (config_of (example_ext ''KEY'' (Some two_files) transferred)) clean_world))
       ''/tmp/deploy_identity'' ''KEY\<newline>''"
  by code_simp






end
